theory Spec2Isabelle
  imports Main "HOL-Library.Sublist"
begin

section \<open>Parsed documents and the JavaScript operations the validators use\<close>

text \<open>
  A parsed OpenAPI document is a tree of mappings and sequences with scalar leaves.
  Numbers are integers in this development. A mapping is the list of its own entries in
  the order \<open>Object.entries\<close> yields them, with distinct keys. The value
  \<open>undefined\<close> (a property that is absent) is \<open>None\<close> of
  \<open>json option\<close>. Strings are ASCII.
\<close>

datatype json =
    JNull
  | JBool bool
  | JNum int
  | JStr string
  | JArr "json list"
  | JObj "(string \<times> json) list"

datatype jserr = TypeError

text \<open>Truthiness of a value, as \<open>!!v\<close>.\<close>

fun truthy :: "json option \<Rightarrow> bool" where
  "truthy None = False"
| "truthy (Some JNull) = False"
| "truthy (Some (JBool b)) = b"
| "truthy (Some (JNum n)) = (n \<noteq> 0)"
| "truthy (Some (JStr s)) = (s \<noteq> [])"
| "truthy (Some (JArr xs)) = True"
| "truthy (Some (JObj kvs)) = True"

text \<open>\<open>typeof v === 'object'\<close>: true of mappings, sequences and \<open>null\<close>.\<close>

fun typeofObject :: "json option \<Rightarrow> bool" where
  "typeofObject (Some JNull) = True"
| "typeofObject (Some (JArr xs)) = True"
| "typeofObject (Some (JObj kvs)) = True"
| "typeofObject v = False"

text \<open>Decimal rendering of a number.\<close>

definition digitChar :: "nat \<Rightarrow> char" where
  "digitChar n = ''0123456789'' ! n"

function showNat :: "nat \<Rightarrow> string" where
  "showNat n = (if n < 10 then [digitChar n] else showNat (n div 10) @ [digitChar (n mod 10)])"
  by pat_completeness auto
termination
  by (relation "measure id") auto

declare showNat.simps [simp del]

definition showInt :: "int \<Rightarrow> string" where
  "showInt i = (if i < 0 then CHR ''-'' # showNat (nat (- i)) else showNat (nat i))"

fun joinWith :: "string \<Rightarrow> string list \<Rightarrow> string" where
  "joinWith sep [] = []"
| "joinWith sep [x] = x"
| "joinWith sep (x # y # ys) = x @ sep @ joinWith sep (y # ys)"

text \<open>
  \<open>String(v)\<close>, the conversion a template literal, a property key and the default
  sort comparison apply. \<open>Array.prototype.join\<close> renders \<open>null\<close> elements
  as the empty string.
\<close>

fun toStr :: "json \<Rightarrow> string" where
  "toStr JNull = ''null''"
| "toStr (JBool b) = (if b then ''true'' else ''false'')"
| "toStr (JNum n) = showInt n"
| "toStr (JStr s) = s"
| "toStr (JArr xs) = joinWith '','' (map (\<lambda>x. if x = JNull then [] else toStr x) xs)"
| "toStr (JObj kvs) = ''[object Object]''"

fun toStrU :: "json option \<Rightarrow> string" where
  "toStrU None = ''undefined''"
| "toStrU (Some v) = toStr v"

text \<open>
  Names every plain object inherits from \<open>Object.prototype\<close>: a lookup
  \<open>table[key]\<close> with a computed key finds these when the table has no own entry.
\<close>

definition objectPrototypeKeys :: "string list" where
  "objectPrototypeKeys =
     [''constructor'', ''__proto__'', ''hasOwnProperty'', ''isPrototypeOf'',
      ''propertyIsEnumerable'', ''toLocaleString'', ''toString'', ''valueOf'',
      ''__defineGetter__'', ''__defineSetter__'', ''__lookupGetter__'', ''__lookupSetter__'']"

definition inherited :: "string \<Rightarrow> bool" where
  "inherited k = (k \<in> set objectPrototypeKeys)"

text \<open>
  \<open>v.k\<close> for a value \<open>v\<close> that is neither \<open>null\<close> nor
  \<open>undefined\<close>: the own data properties. A sequence and a string have their
  \<open>length\<close> and their indexed elements; numbers and booleans have none. The names
  the validators read with a fixed key are not members of a built-in prototype.
\<close>

definition indexKey :: "nat \<Rightarrow> string \<Rightarrow> nat option" where
  "indexKey n k = find (\<lambda>i. showNat i = k) [0..<n]"

fun propOf :: "json \<Rightarrow> string \<Rightarrow> json option" where
  "propOf (JObj kvs) k = map_of kvs k"
| "propOf (JArr xs) k =
     (if k = ''length'' then Some (JNum (int (length xs)))
      else map_option (\<lambda>i. xs ! i) (indexKey (length xs) k))"
| "propOf (JStr s) k =
     (if k = ''length'' then Some (JNum (int (length s)))
      else map_option (\<lambda>i. JStr [s ! i]) (indexKey (length s) k))"
| "propOf v k = None"

text \<open>\<open>v.k\<close> where \<open>v\<close> may be anything: reading a property of \<open>null\<close>
  or \<open>undefined\<close> throws a TypeError.\<close>

fun getProp :: "json option \<Rightarrow> string \<Rightarrow> jserr + json option" where
  "getProp None k = Inl TypeError"
| "getProp (Some JNull) k = Inl TypeError"
| "getProp (Some v) k = Inr (propOf v k)"

text \<open>\<open>v?.k\<close>: \<open>undefined\<close> when \<open>v\<close> is \<open>null\<close> or \<open>undefined\<close>.\<close>

fun optProp :: "json option \<Rightarrow> string \<Rightarrow> json option" where
  "optProp None k = None"
| "optProp (Some JNull) k = None"
| "optProp (Some v) k = propOf v k"

text \<open>\<open>a || b\<close> on values.\<close>

definition orElse :: "json option \<Rightarrow> json \<Rightarrow> json" where
  "orElse a b = (if truthy a then the a else b)"

text \<open>\<open>Object.entries(v)\<close>; it throws on \<open>null\<close> and \<open>undefined\<close>.\<close>

fun entries :: "json \<Rightarrow> (string \<times> json) list" where
  "entries (JObj kvs) = kvs"
| "entries (JArr xs) = zip (map showNat [0..<length xs]) xs"
| "entries (JStr s) = zip (map showNat [0..<length s]) (map (\<lambda>c. JStr [c]) s)"
| "entries v = []"

fun entriesOf :: "json option \<Rightarrow> jserr + (string \<times> json) list" where
  "entriesOf None = Inl TypeError"
| "entriesOf (Some JNull) = Inl TypeError"
| "entriesOf (Some v) = Inr (entries v)"

definition keys :: "json \<Rightarrow> string list" where
  "keys v = map fst (entries v)"

text \<open>
  \<open>a === b\<close>: scalars are equal by value; a mapping or a sequence is equal only to
  itself, and the comparisons of the validators never compare a node with itself.
\<close>

fun strictEq :: "json option \<Rightarrow> json option \<Rightarrow> bool" where
  "strictEq None None = True"
| "strictEq (Some JNull) (Some JNull) = True"
| "strictEq (Some (JBool a)) (Some (JBool b)) = (a = b)"
| "strictEq (Some (JNum a)) (Some (JNum b)) = (a = b)"
| "strictEq (Some (JStr a)) (Some (JStr b)) = (a = b)"
| "strictEq a b = False"

definition isStr :: "json option \<Rightarrow> string \<Rightarrow> bool" where
  "isStr v s = strictEq v (Some (JStr s))"

subsection \<open>Characters and numbers\<close>

definition charCode :: "char \<Rightarrow> nat" where
  "charCode c = of_char c"

definition isDigit :: "char \<Rightarrow> bool" where
  "isDigit c = (48 \<le> charCode c \<and> charCode c \<le> 57)"

definition lowerLetters :: string where
  "lowerLetters = ''abcdefghijklmnopqrstuvwxyz''"

definition upperLetters :: string where
  "upperLetters = ''ABCDEFGHIJKLMNOPQRSTUVWXYZ''"

definition isUpper :: "char \<Rightarrow> bool" where
  "isUpper c = (c \<in> set upperLetters)"

definition isLower :: "char \<Rightarrow> bool" where
  "isLower c = (c \<in> set lowerLetters)"

definition isSpace :: "char \<Rightarrow> bool" where
  "isSpace c = (charCode c = 32 \<or> (9 \<le> charCode c \<and> charCode c \<le> 13))"

definition translate :: "string \<Rightarrow> string \<Rightarrow> char \<Rightarrow> char" where
  "translate from to c = (case map_of (zip from to) c of Some d \<Rightarrow> d | None \<Rightarrow> c)"

definition toUpperCase :: "string \<Rightarrow> string" where
  "toUpperCase s = map (translate lowerLetters upperLetters) s"

definition toLowerCase :: "string \<Rightarrow> string" where
  "toLowerCase s = map (translate upperLetters lowerLetters) s"

definition startsWith :: "string \<Rightarrow> string \<Rightarrow> bool" where
  "startsWith s p = (take (length p) s = p)"

definition hexValue :: "char \<Rightarrow> nat option" where
  "hexValue c =
     (if isDigit c then Some (charCode c - 48)
      else if 97 \<le> charCode c \<and> charCode c \<le> 102 then Some (charCode c - 87)
      else if 65 \<le> charCode c \<and> charCode c \<le> 70 then Some (charCode c - 55)
      else None)"

definition digitsValue :: "nat \<Rightarrow> string \<Rightarrow> nat" where
  "digitsValue radix ds = foldl (\<lambda>acc c. acc * radix + the (hexValue c)) 0 ds"

text \<open>
  \<open>parseInt(s)\<close> of a string: leading white space, a sign, a \<open>0x\<close> prefix for
  radix 16, then the longest run of digits; \<open>NaN\<close> (here \<open>None\<close>) without a digit.
\<close>

definition parseInt :: "string \<Rightarrow> int option" where
  "parseInt s =
     (let s1 = dropWhile isSpace s;
          neg = (s1 \<noteq> [] \<and> hd s1 = CHR ''-'');
          s2 = (if s1 \<noteq> [] \<and> (hd s1 = CHR ''-'' \<or> hd s1 = CHR ''+'') then tl s1 else s1);
          hex = (startsWith s2 ''0x'' \<or> startsWith s2 ''0X'');
          ds = (if hex then takeWhile (\<lambda>c. hexValue c \<noteq> None) (drop 2 s2)
                else takeWhile isDigit s2);
          n = int (digitsValue (if hex then 16 else 10) ds)
      in if ds = [] then None else Some (if neg then - n else n))"

text \<open>
  \<open>Number(v)\<close>, the conversion of a relational comparison; \<open>NaN\<close> is
  \<open>None\<close>. A string converts when, white space trimmed, it is empty, a signed run of
  decimal digits or an unsigned hexadecimal literal (the integer forms).
\<close>

definition trim :: "string \<Rightarrow> string" where
  "trim s = rev (dropWhile isSpace (rev (dropWhile isSpace s)))"

definition stringToNumber :: "string \<Rightarrow> int option" where
  "stringToNumber s =
     (let t = trim s;
          body = (if t \<noteq> [] \<and> (hd t = CHR ''-'' \<or> hd t = CHR ''+'') then tl t else t)
      in if t = [] then Some 0
         else if (startsWith t ''0x'' \<or> startsWith t ''0X'') \<and> drop 2 t \<noteq> []
                 \<and> list_all (\<lambda>c. hexValue c \<noteq> None) (drop 2 t)
              then Some (int (digitsValue 16 (drop 2 t)))
         else if body \<noteq> [] \<and> list_all isDigit body
              then Some (if hd t = CHR ''-'' then - int (digitsValue 10 body)
                         else int (digitsValue 10 body))
         else None)"

fun toNumber :: "json option \<Rightarrow> int option" where
  "toNumber None = None"
| "toNumber (Some JNull) = Some 0"
| "toNumber (Some (JBool b)) = Some (if b then 1 else 0)"
| "toNumber (Some (JNum n)) = Some n"
| "toNumber (Some (JStr s)) = stringToNumber s"
| "toNumber (Some (JArr xs)) = stringToNumber (toStr (JArr xs))"
| "toNumber (Some (JObj kvs)) = None"

text \<open>\<open>v < n\<close> and \<open>v > n\<close> against a number; a comparison with \<open>NaN\<close> is false.\<close>

definition ltNum :: "json option \<Rightarrow> int \<Rightarrow> bool" where
  "ltNum v n = (case toNumber v of None \<Rightarrow> False | Some m \<Rightarrow> m < n)"

definition gtNum :: "json option \<Rightarrow> int \<Rightarrow> bool" where
  "gtNum v n = (case toNumber v of None \<Rightarrow> False | Some m \<Rightarrow> m > n)"

text \<open>\<open>lo <= parseInt(code) && parseInt(code) < hi\<close>.\<close>

definition codeInRange :: "string \<Rightarrow> int \<Rightarrow> int \<Rightarrow> bool" where
  "codeInRange c lo hi = (case parseInt c of None \<Rightarrow> False | Some n \<Rightarrow> lo \<le> n \<and> n < hi)"

text \<open>The elements a \<open>for ... of\<close> loop visits; a value that is not iterable throws.\<close>

fun iterate :: "json \<Rightarrow> jserr + json list" where
  "iterate (JArr xs) = Inr xs"
| "iterate (JStr s) = Inr (map (\<lambda>c. JStr [c]) s)"
| "iterate v = Inl TypeError"

text \<open>\<open>v[i]\<close> with a numeric index.\<close>

definition elemAt :: "json \<Rightarrow> nat \<Rightarrow> json option" where
  "elemAt v i = propOf v (showNat i)"

text \<open>
  \<open>!!table[key]\<close> with a computed key on a plain mapping: an own entry decides,
  otherwise an inherited member of \<open>Object.prototype\<close> is found, which is truthy.
\<close>

definition truthyAt :: "json \<Rightarrow> string \<Rightarrow> bool" where
  "truthyAt table k =
     (case propOf table k of Some v \<Rightarrow> truthy (Some v) | None \<Rightarrow> inherited k)"

section \<open>The common field registry\<close>

text \<open>
  The registry module keeps two plain objects: \<open>commonFieldDefinitions\<close> from canonical
  name to definition and \<open>commonFieldMap\<close> from spelling to canonical name. Each is the
  list of its own entries. The source of the definitions, \<open>common.yaml\<close>, is not part of
  the sources at hand and is a parameter: the parsed file.
\<close>

record registry =
  definitions :: "(string \<times> json) list"
  fieldMap :: "(string \<times> string) list"

text \<open>
  \<open>table[key] = value\<close> on a plain object: an existing entry is replaced in place, a new one
  is added at the end. The key \<open>__proto__\<close> adds no entry (it addresses the prototype,
  which the model does not follow).
\<close>

fun assign :: "string \<Rightarrow> 'a \<Rightarrow> (string \<times> 'a) list \<Rightarrow> (string \<times> 'a) list" where
  "assign k v [] = (if k = ''__proto__'' then [] else [(k, v)])"
| "assign k v (p # ps) = (if fst p = k then (k, v) # ps else p # assign k v ps)"

text \<open>\<open>schemaName.replace(/([A-Z])/g, '_$1').toLowerCase().replace(/^_/, '')\<close>.\<close>

definition snakeCase :: "string \<Rightarrow> string" where
  "snakeCase schemaName =
     (let marked = concat (map (\<lambda>c. if isUpper c then [CHR ''_'', c] else [c]) schemaName);
          lowered = toLowerCase marked
      in case lowered of
           [] \<Rightarrow> []
         | c # r \<Rightarrow> if c = CHR ''_'' then r else c # r)"

text \<open>\<open>schemaName.charAt(0).toLowerCase() + schemaName.slice(1)\<close>.\<close>

definition camelCase :: "string \<Rightarrow> string" where
  "camelCase schemaName = toLowerCase (take 1 schemaName) @ drop 1 schemaName"

text \<open>The body of the loop over the schemas of \<open>common.yaml\<close>.\<close>

definition registerField :: "registry \<Rightarrow> string \<times> json \<Rightarrow> registry" where
  "registerField reg entry =
     (let schemaName = fst entry; schemaDef = snd entry;
          defs = assign schemaName schemaDef (definitions reg);
          normalized = toLowerCase schemaName;
          map1 = assign normalized schemaName (fieldMap reg);
          map2 = (if snakeCase schemaName \<noteq> normalized
                  then assign (snakeCase schemaName) schemaName map1 else map1);
          map3 = (if camelCase schemaName \<noteq> schemaName \<and> camelCase schemaName \<noteq> normalized
                  then assign (camelCase schemaName) schemaName map2 else map2)
      in \<lparr>definitions = defs, fieldMap = map3\<rparr>)"

definition emptyRegistry :: registry where
  "emptyRegistry = \<lparr>definitions = [], fieldMap = []\<rparr>"

text \<open>
  The module's loading block. A TypeError (the parsed file is \<open>null\<close> or
  \<open>undefined\<close>) is caught and leaves the registry empty.
\<close>

definition loadRegistry :: "json option \<Rightarrow> registry" where
  "loadRegistry commonSpec =
     (case getProp commonSpec ''components'' of
        Inl e \<Rightarrow> emptyRegistry
      | Inr components \<Rightarrow>
          foldl registerField emptyRegistry
            (entries (orElse (optProp components ''schemas'') (JObj []))))"

definition getFieldCount :: "registry \<Rightarrow> nat" where
  "getFieldCount reg = length (definitions reg)"

text \<open>
  \<open>table[key]\<close> with a computed key: an own entry, else a member inherited from
  \<open>Object.prototype\<close>, else \<open>undefined\<close>.
\<close>

datatype 'a lookup = Missing | Builtin | Own 'a

definition lookupIn :: "(string \<times> 'a) list \<Rightarrow> string \<Rightarrow> 'a lookup" where
  "lookupIn table k =
     (case map_of table k of
        Some v \<Rightarrow> Own v
      | None \<Rightarrow> if inherited k then Builtin else Missing)"

text \<open>The property key an inherited member converts to when it is used as a key.\<close>

definition builtinKey :: "string \<Rightarrow> string" where
  "builtinKey k =
     (if k = ''__proto__'' then ''[object Object]''
      else if k = ''constructor'' then ''function Object() { [native code] }''
      else ''function '' @ k @ ''() { [native code] }'')"

text \<open>
  \<open>getField(fieldName)\<close>: \<open>null\<close> when the map has no truthy entry, else the entry of
  the definitions table, which is \<open>undefined\<close> (\<open>None\<close>) when absent. A built-in member
  is no definition and is rendered as \<open>undefined\<close> too.
\<close>

definition getField :: "registry \<Rightarrow> string \<Rightarrow> json option" where
  "getField reg fieldName =
     (let normalized = toLowerCase fieldName in
      case lookupIn (fieldMap reg) normalized of
        Missing \<Rightarrow> Some JNull
      | Own actualName \<Rightarrow>
          if actualName = [] then Some JNull else map_of (definitions reg) actualName
      | Builtin \<Rightarrow> map_of (definitions reg) (builtinKey normalized))"

text \<open>The keys of \<open>commonFieldMap\<close> a lookup can reach for a canonical name: lookups
  lower-case the name they are given.\<close>

definition keysOf :: "string \<Rightarrow> string set" where
  "keysOf m = {toLowerCase m, snakeCase m}"

section \<open>Validators as functions of the document\<close>

text \<open>
  A validator is called as \<open>validate(apiSpec, addResult)\<close> and reports through the
  callback, always with the four arguments level, message, location and suggestion. Its
  model returns the calls it makes, in order, and whether it threw: a TypeError ends the
  validator, the calls made before it stay made.
\<close>

type_synonym call = "string \<times> string \<times> string \<times> string option"

type_synonym outcome = "call list \<times> jserr option"

definition emit :: "string \<Rightarrow> string \<Rightarrow> string \<Rightarrow> string \<Rightarrow> outcome" where
  "emit lvl msg loc sug = ([(lvl, msg, loc, Some sug)], None)"

definition skip :: outcome where
  "skip = ([], None)"

text \<open>Statements in sequence: the first one that throws ends the sequence.\<close>

fun seqs :: "outcome list \<Rightarrow> outcome" where
  "seqs [] = ([], None)"
| "seqs ((cs, Some e) # rest) = (cs, Some e)"
| "seqs ((cs, None) # rest) = (cs @ fst (seqs rest), snd (seqs rest))"

definition forEach :: "('a \<Rightarrow> outcome) \<Rightarrow> 'a list \<Rightarrow> outcome" where
  "forEach body xs = seqs (map body xs)"

text \<open>A value whose computation may throw, and the statements that use it.\<close>

definition withVal :: "jserr + 'a \<Rightarrow> ('a \<Rightarrow> outcome) \<Rightarrow> outcome" where
  "withVal r body = (case r of Inl e \<Rightarrow> ([], Some e) | Inr v \<Rightarrow> body v)"

definition callLevel :: "call \<Rightarrow> string" where
  "callLevel c = fst c"

definition callMessage :: "call \<Rightarrow> string" where
  "callMessage c = fst (snd c)"

definition callLocation :: "call \<Rightarrow> string" where
  "callLocation c = fst (snd (snd c))"

definition callSuggestion :: "call \<Rightarrow> string option" where
  "callSuggestion c = snd (snd (snd c))"

subsection \<open>Security validator\<close>

text \<open>\<open>hasEndpointSecurity && endpointSecurity.length === 0\<close>.\<close>

definition isPublicOf :: "json option \<Rightarrow> jserr + bool" where
  "isPublicOf endpointSecurity =
     (if endpointSecurity = None then Inr False
      else case getProp endpointSecurity ''length'' of
             Inl e \<Rightarrow> Inl e
           | Inr len \<Rightarrow> Inr (strictEq len (Some (JNum 0))))"

text \<open>The body of the loop over the operations of a path.\<close>

definition securityOperation :: "bool \<Rightarrow> string \<Rightarrow> string \<times> json \<Rightarrow> outcome" where
  "securityOperation hasGlobalSecurity pathName entry =
     (let method = fst entry; methodDef = snd entry in
      if \<not> typeofObject (Some methodDef) then skip
      else
        withVal (getProp (Some methodDef) ''security'') (\<lambda>endpointSecurity.
        let baseLocation = pathName @ ''.'' @ method;
            hasEndpointSecurity = (endpointSecurity \<noteq> None)
        in withVal (isPublicOf endpointSecurity) (\<lambda>isPublic.
           seqs [
             if \<not> hasGlobalSecurity \<and> \<not> hasEndpointSecurity then
               emit ''warning''
                 (''Endpoint '' @ toUpperCase method @ '' '' @ pathName @ '' has no security defined.'')
                 baseLocation
                 (''Add security requirement or explicitly mark as public with '' @ [CHR 0x22]
                    @ ''security: []'' @ [CHR 0x22] @ ''.'')
             else if isPublic then
               emit ''info''
                 (''Endpoint '' @ toUpperCase method @ '' '' @ pathName
                    @ '' is publicly accessible (no authentication).'')
                 baseLocation
                 (''Verify this endpoint should be public. If authentication is needed, ''
                    @ ''add security requirements.'')
             else skip,
             if method = ''post'' \<or> method = ''put'' \<or> method = ''patch'' \<or> method = ''delete'' then
               (if \<not> hasGlobalSecurity \<and> (\<not> hasEndpointSecurity \<or> isPublic) then
                  emit ''error''
                    (toUpperCase method @ '' '' @ pathName @ '' modifies data but has no authentication.'')
                    baseLocation
                    (''Add security requirements for data-modifying operations ''
                       @ ''(POST, PUT, PATCH, DELETE).'')
                else skip)
             else skip])))"

text \<open>\<open>globalSecurity.length > 0\<close> for \<open>globalSecurity = apiSpec.security || []\<close>.\<close>

definition hasGlobalSecurityOf :: "json \<Rightarrow> bool" where
  "hasGlobalSecurityOf apiSpec =
     gtNum (propOf (orElse (propOf apiSpec ''security'') (JArr [])) ''length'') 0"

definition validateSecurity :: "json \<Rightarrow> outcome" where
  "validateSecurity apiSpec =
     withVal (getProp (Some apiSpec) ''paths'') (\<lambda>pathsV.
     let paths = orElse pathsV (JObj []);
         globalSecurity = orElse (propOf apiSpec ''security'') (JArr []);
         hasGlobalSecurity = hasGlobalSecurityOf apiSpec;
         securitySchemes =
           orElse (optProp (propOf apiSpec ''components'') ''securitySchemes'') (JObj [])
     in seqs [
          if \<not> hasGlobalSecurity \<and> length (keys securitySchemes) = 0 then
            emit ''warning''
              ''No security schemes defined in the API specification.''
              ''components.securitySchemes''
              (''Add security schemes (e.g., bearerAuth, apiKey, oauth2) in ''
                 @ ''components.securitySchemes.'')
          else skip,
          forEach (\<lambda>pathEntry.
              withVal (entriesOf (Some (snd pathEntry)))
                (forEach (securityOperation hasGlobalSecurity (fst pathEntry))))
            (entries paths),
          if hasGlobalSecurity then
            withVal (iterate globalSecurity)
              (forEach (\<lambda>secReq.
                 withVal (entriesOf (Some secReq)) (\<lambda>es.
                   forEach (\<lambda>schemeName.
                     if \<not> truthyAt securitySchemes schemeName then
                       emit ''error''
                         (''Security scheme '' @ [CHR 0x27] @ schemeName @ [CHR 0x27]
                            @ '' is referenced but not defined.'')
                         ''security''
                         (''Add '' @ [CHR 0x27] @ schemeName @ [CHR 0x27]
                            @ '' to components.securitySchemes.'')
                     else skip) (map fst es))))
          else skip])"

subsection \<open>Versioning validator\<close>

definition isIdentChar :: "char \<Rightarrow> bool" where
  "isIdentChar c = (isDigit c \<or> isUpper c \<or> isLower c \<or> c = CHR ''.'' \<or> c = CHR ''-'')"

definition afterDigits :: "string \<Rightarrow> string option" where
  "afterDigits s = (if takeWhile isDigit s = [] then None else Some (dropWhile isDigit s))"

definition afterChar :: "char \<Rightarrow> string \<Rightarrow> string option" where
  "afterChar c s = (case s of [] \<Rightarrow> None | d # r \<Rightarrow> if d = c then Some r else None)"

text \<open>The optional groups \<open>(-[a-zA-Z0-9.-]+)?(\+[a-zA-Z0-9.-]+)?$\<close>.\<close>

definition semverTail :: "string \<Rightarrow> bool" where
  "semverTail r =
     (case r of
        [] \<Rightarrow> True
      | c # t \<Rightarrow>
          if c = CHR ''-'' then
            takeWhile isIdentChar t \<noteq> [] \<and>
            (case dropWhile isIdentChar t of
               [] \<Rightarrow> True
             | d # u \<Rightarrow> d = CHR ''+'' \<and> u \<noteq> [] \<and> list_all isIdentChar u)
          else c = CHR ''+'' \<and> t \<noteq> [] \<and> list_all isIdentChar t)"

text \<open>\<open>/^\d+\.\d+\.\d+(-[a-zA-Z0-9.-]+)?(\+[a-zA-Z0-9.-]+)?$/.test(version)\<close>; the
  test converts its argument to a string.\<close>

definition isSemanticVersion :: "json option \<Rightarrow> bool" where
  "isSemanticVersion version =
     (case Option.bind (Option.bind (Option.bind (Option.bind
             (afterDigits (toStrU version)) (afterChar (CHR ''.''))) afterDigits)
             (afterChar (CHR ''.''))) afterDigits of
        None \<Rightarrow> False
      | Some r \<Rightarrow> semverTail r)"

fun anySuffix :: "(string \<Rightarrow> bool) \<Rightarrow> string \<Rightarrow> bool" where
  "anySuffix P [] = P []"
| "anySuffix P (c # cs) = (P (c # cs) \<or> anySuffix P cs)"

text \<open>\<open>/v\d+|version\s*\d+/i.test(title)\<close>.\<close>

definition titleHasVersion :: "string \<Rightarrow> bool" where
  "titleHasVersion s =
     anySuffix (\<lambda>t.
        (case t of
           c # d # r \<Rightarrow> (c = CHR ''v'' \<or> c = CHR ''V'') \<and> isDigit d
         | _ \<Rightarrow> False)
        \<or> (toLowerCase (take 7 t) = ''version'' \<and>
            (case dropWhile isSpace (drop 7 t) of d # r \<Rightarrow> isDigit d | [] \<Rightarrow> False))) s"

text \<open>\<open>/\/v\d+\//i.test(path)\<close>.\<close>

definition pathHasVersion :: "string \<Rightarrow> bool" where
  "pathHasVersion s =
     anySuffix (\<lambda>t.
        case t of
          a # b # r \<Rightarrow>
            a = CHR ''/'' \<and> (b = CHR ''v'' \<or> b = CHR ''V'') \<and> takeWhile isDigit r \<noteq> [] \<and>
            (case dropWhile isDigit r of c # u \<Rightarrow> c = CHR ''/'' | [] \<Rightarrow> False)
        | _ \<Rightarrow> False) s"

text \<open>\<open>v.startsWith(p)\<close> on a truthy value: only a string has the method.\<close>

fun startsWithOf :: "json option \<Rightarrow> string \<Rightarrow> jserr + bool" where
  "startsWithOf (Some (JStr s)) p = Inr (startsWith s p)"
| "startsWithOf v p = Inl TypeError"

text \<open>The checks of the validator, in the order of the source.\<close>

definition semverCheck :: "json option \<Rightarrow> outcome" where
  "semverCheck version =
     (if \<not> isSemanticVersion version then
        emit ''warning''
          (''API version '' @ [CHR 0x27] @ toStrU version @ [CHR 0x27]
             @ '' does not follow semantic versioning.'')
          ''info.version''
          (''Use semantic versioning format: MAJOR.MINOR.PATCH (e.g., '' @ [CHR 0x22] @ ''1.0.0''
             @ [CHR 0x22] @ '', '' @ [CHR 0x22] @ ''2.1.3'' @ [CHR 0x22] @ '').'')
      else skip)"

definition prefixCheck :: "json option \<Rightarrow> outcome" where
  "prefixCheck version =
     withVal (startsWithOf version ''v'') (\<lambda>lower.
     withVal (if lower then Inr True else startsWithOf version ''V'') (\<lambda>prefixed.
       if prefixed then
         emit ''warning''
           (''API version '' @ [CHR 0x27] @ toStrU version @ [CHR 0x27] @ '' has ''
              @ [CHR 0x22] @ ''v'' @ [CHR 0x22] @ '' prefix.'')
           ''info.version''
           (''Remove '' @ [CHR 0x22] @ ''v'' @ [CHR 0x22] @ '' prefix from version. Use ''
              @ [CHR 0x22] @ ''1.0.0'' @ [CHR 0x22] @ '' instead of '' @ [CHR 0x22] @ ''v1.0.0''
              @ [CHR 0x22] @ ''.'')
       else skip))"

definition titleCheck :: "json \<Rightarrow> outcome" where
  "titleCheck info =
     (if truthy (propOf info ''title'') \<and> titleHasVersion (toStrU (propOf info ''title'')) then
        emit ''info''
          ''API title contains version information.''
          ''info.title''
          (''Consider removing version from title as it'' @ [CHR 0x27]
             @ ''s already in info.version.'')
      else skip)"

definition pathVersionCheck :: "json \<Rightarrow> outcome" where
  "pathVersionCheck apiSpec =
     (let paths = orElse (propOf apiSpec ''paths'') (JObj []);
          pathsWithVersion = filter pathHasVersion (keys paths)
      in if length pathsWithVersion > 0 then
           emit ''info''
             ''API uses path-based versioning (e.g., /v1/resource).''
             ''paths''
             (''Ensure version in paths matches info.version. ''
                @ ''Consider using header-based versioning instead.'')
         else skip)"

definition openapiCheck :: "json \<Rightarrow> outcome" where
  "openapiCheck apiSpec =
     (if \<not> truthy (propOf apiSpec ''openapi'') then
        emit ''error''
          ''Missing OpenAPI version.''
          ''openapi''
          (''Add openapi field (e.g., '' @ [CHR 0x22] @ ''3.0.3'' @ [CHR 0x22] @ '').'')
      else
        withVal (startsWithOf (propOf apiSpec ''openapi'') ''3.'') (\<lambda>three.
          if \<not> three then
            emit ''warning''
              (''OpenAPI version '' @ [CHR 0x27] @ toStrU (propOf apiSpec ''openapi'') @ [CHR 0x27]
                 @ '' is outdated.'')
              ''openapi''
              ''Consider upgrading to OpenAPI 3.0.3 or later.''
          else skip))"

definition validateVersioning :: "json \<Rightarrow> outcome" where
  "validateVersioning apiSpec =
     withVal (getProp (Some apiSpec) ''info'') (\<lambda>infoV.
     let info = orElse infoV (JObj []);
         version = propOf info ''version''
     in
     if \<not> truthy version then
       emit ''error''
         ''API specification is missing version information.''
         ''info.version''
         (''Add version field in info section (e.g., '' @ [CHR 0x22] @ ''1.0.0'' @ [CHR 0x22] @ '').'')
     else
       seqs [semverCheck version, prefixCheck version, titleCheck info,
             pathVersionCheck apiSpec, openapiCheck apiSpec])"

subsection \<open>Required fields validator\<close>

text \<open>\<open>names.includes(v)\<close> for a list of strings.\<close>

definition includesStr :: "string list \<Rightarrow> json option \<Rightarrow> bool" where
  "includesStr names v = list_ex (\<lambda>n. strictEq (Some (JStr n)) v) names"

text \<open>\<open>response.content?.['application/json']?.schema\<close>, for a container that is not
  \<open>null\<close>.\<close>

definition jsonSchemaOf :: "json \<Rightarrow> json option" where
  "jsonSchemaOf container =
     optProp (optProp (propOf container ''content'') ''application/json'') ''schema''"

definition requiredFieldsOperation :: "string \<Rightarrow> string \<times> json \<Rightarrow> outcome" where
  "requiredFieldsOperation pathName entry =
     (let method = fst entry; methodDef = snd entry in
      if \<not> typeofObject (Some methodDef) then skip
      else
        withVal (getProp (Some methodDef) ''requestBody'') (\<lambda>requestBody.
        if truthy requestBody then
          (let reqBodySchema = jsonSchemaOf (the requestBody) in
           if truthy reqBodySchema then
             (let location = pathName @ ''.'' @ method @ ''.requestBody'';
                  schema = the reqBodySchema;
                  properties = propOf schema ''properties'';
                  required = propOf schema ''required''
              in seqs [
                   if truthy properties \<and> \<not> truthy required then
                     (let propCount = length (keys (the properties)) in
                      if propCount > 0 then
                        emit ''warning''
                          (''Request body has '' @ showNat propCount
                             @ '' properties but no required fields specified.'')
                          location
                          (''Add '' @ [CHR 0x22] @ ''required'' @ [CHR 0x22]
                             @ '' array to specify which fields are mandatory.'')
                      else skip)
                   else skip,
                   if truthy required \<and> strictEq (propOf (the required) ''length'') (Some (JNum 0))
                      \<and> truthy properties then
                     (let propCount = length (keys (the properties)) in
                      if propCount > 0 then
                        emit ''info''
                          (''Request body has '' @ showNat propCount
                             @ '' properties but required array is empty.'')
                          location
                          ''Consider marking critical fields as required.''
                      else skip)
                   else skip,
                   if method = ''post'' \<or> method = ''put'' then
                     (if \<not> strictEq (propOf (the requestBody) ''required'') (Some (JBool True)) then
                        emit ''warning''
                          (toUpperCase method @ '' request body should be marked as required.'')
                          location
                          (''Set '' @ [CHR 0x22] @ ''required'' @ [CHR 0x22]
                             @ '': true for the requestBody.'')
                      else skip)
                   else skip])
           else skip)
        else skip))"

fun isArray :: "json option \<Rightarrow> bool" where
  "isArray (Some (JArr xs)) = True"
| "isArray v = False"

fun elems :: "json \<Rightarrow> json list" where
  "elems (JArr xs) = xs"
| "elems v = []"

text \<open>The body of the loop over \<open>components.schemas\<close>.\<close>

definition requiredFieldsSchema :: "string \<times> json \<Rightarrow> outcome" where
  "requiredFieldsSchema entry =
     (let schemaName = fst entry; schema = snd entry in
      withVal (getProp (Some schema) ''type'') (\<lambda>ty.
      if \<not> strictEq ty (Some (JStr ''object'')) \<or> \<not> truthy (propOf schema ''properties'') then skip
      else
        (let location = ''components.schemas.'' @ schemaName;
             properties = the (propOf schema ''properties'');
             propCount = length (keys properties);
             required = propOf schema ''required''
         in seqs [
              if \<not> truthy required \<and> propCount > 0 then
                emit ''info''
                  (''Schema '' @ [CHR 0x27] @ schemaName @ [CHR 0x27] @ '' has '' @ showNat propCount
                     @ '' properties but no required fields.'')
                  location
                  (''Consider adding '' @ [CHR 0x22] @ ''required'' @ [CHR 0x22]
                     @ '' array for mandatory fields.'')
              else skip,
              if truthy required \<and> isArray required then
                (let propNames = keys properties in
                 forEach (\<lambda>requiredField.
                   if \<not> includesStr propNames (Some requiredField) then
                     emit ''error''
                       (''Schema '' @ [CHR 0x27] @ schemaName @ [CHR 0x27] @ '' marks '' @ [CHR 0x27]
                          @ toStr requiredField @ [CHR 0x27]
                          @ '' as required but property doesn'' @ [CHR 0x27] @ ''t exist.'')
                       location
                       (''Remove '' @ [CHR 0x27] @ toStr requiredField @ [CHR 0x27]
                          @ '' from required array or add it to properties.'')
                   else skip) (elems (the required)))
              else skip])))"

definition validateRequiredFields :: "json \<Rightarrow> outcome" where
  "validateRequiredFields apiSpec =
     withVal (getProp (Some apiSpec) ''paths'') (\<lambda>pathsV.
     let paths = orElse pathsV (JObj []);
         schemas = optProp (propOf apiSpec ''components'') ''schemas''
     in seqs [
          forEach (\<lambda>pathEntry.
              withVal (entriesOf (Some (snd pathEntry)))
                (forEach (requiredFieldsOperation (fst pathEntry))))
            (entries paths),
          if truthy schemas then forEach requiredFieldsSchema (entries (the schemas)) else skip])"

subsection \<open>Common fields validator\<close>

text \<open>\<open>JSON.stringify(v)\<close>.\<close>

definition hexDigit :: "nat \<Rightarrow> char" where
  "hexDigit n = ''0123456789abcdef'' ! n"

definition escapeChar :: "char \<Rightarrow> string" where
  "escapeChar c =
     (if c = CHR 0x22 then [CHR 0x5C, CHR 0x22]
      else if c = CHR 0x5C then [CHR 0x5C, CHR 0x5C]
      else if c = CHR 0x08 then [CHR 0x5C, CHR ''b'']
      else if c = CHR 0x09 then [CHR 0x5C, CHR ''t'']
      else if c = CHR 0x0A then [CHR 0x5C, CHR ''n'']
      else if c = CHR 0x0C then [CHR 0x5C, CHR ''f'']
      else if c = CHR 0x0D then [CHR 0x5C, CHR ''r'']
      else if charCode c < 32 then
        [CHR 0x5C, CHR ''u'', CHR ''0'', CHR ''0'', hexDigit (charCode c div 16),
         hexDigit (charCode c mod 16)]
      else [c])"

definition quote :: "string \<Rightarrow> string" where
  "quote s = [CHR 0x22] @ concat (map escapeChar s) @ [CHR 0x22]"

fun stringify :: "json \<Rightarrow> string" where
  "stringify JNull = ''null''"
| "stringify (JBool b) = (if b then ''true'' else ''false'')"
| "stringify (JNum n) = showInt n"
| "stringify (JStr s) = quote s"
| "stringify (JArr xs) = ''['' @ joinWith '','' (map stringify xs) @ '']''"
| "stringify (JObj kvs) =
     ''{'' @ joinWith '','' (map (\<lambda>p. quote (fst p) @ '':'' @ stringify (snd p)) kvs) @ ''}''"

text \<open>
  \<open>xs.sort()\<close> with the default comparison: the elements are ordered by their string
  conversions, compared code unit by code unit; equal elements keep their order.
\<close>

fun strLess :: "string \<Rightarrow> string \<Rightarrow> bool" where
  "strLess [] [] = False"
| "strLess [] (y # ys) = True"
| "strLess (x # xs) [] = False"
| "strLess (x # xs) (y # ys) = (charCode x < charCode y \<or> (x = y \<and> strLess xs ys))"

fun insertSorted :: "json \<Rightarrow> json list \<Rightarrow> json list" where
  "insertSorted v [] = [v]"
| "insertSorted v (w # ws) =
     (if strLess (toStr v) (toStr w) then v # w # ws else w # insertSorted v ws)"

definition jsSort :: "json list \<Rightarrow> json list" where
  "jsSort xs = foldl (\<lambda>sorted v. insertSorted v sorted) [] xs"

text \<open>
  The entries \<open>validateFieldMatch\<close> collects; only the message is read afterwards (the
  entries also carry the expected and the actual value).
\<close>

record fieldIssue =
  field :: string
  fieldMessage :: string

text \<open>
  Each comparison of \<open>validateFieldMatch\<close>:
  \<open>if (expectedDef.k && actualSchema.k !== expectedDef.k) issues.push(...)\<close>. The actual
  schema is read only when the expected facet is truthy, and the read throws when the
  schema is \<open>null\<close>.
\<close>

definition typeCheck :: "json \<Rightarrow> json \<Rightarrow> jserr + fieldIssue list" where
  "typeCheck expectedDef actualSchema =
     (if \<not> truthy (propOf expectedDef ''type'') then Inr []
      else if actualSchema = JNull then Inl TypeError
      else if \<not> strictEq (propOf actualSchema ''type'') (propOf expectedDef ''type'') then
        Inr [\<lparr>field = ''type'',
              fieldMessage = ''Type mismatch: expected '' @ [CHR 0x27]
                @ toStrU (propOf expectedDef ''type'') @ [CHR 0x27] @ '', got '' @ [CHR 0x27]
                @ toStrU (propOf actualSchema ''type'') @ [CHR 0x27]\<rparr>]
      else Inr [])"

definition formatCheck :: "json \<Rightarrow> json \<Rightarrow> jserr + fieldIssue list" where
  "formatCheck expectedDef actualSchema =
     (if \<not> truthy (propOf expectedDef ''format'') then Inr []
      else if actualSchema = JNull then Inl TypeError
      else if \<not> strictEq (propOf actualSchema ''format'') (propOf expectedDef ''format'') then
        Inr [\<lparr>field = ''format'',
              fieldMessage = ''Format mismatch: expected '' @ [CHR 0x27]
                @ toStrU (propOf expectedDef ''format'') @ [CHR 0x27] @ '', got '' @ [CHR 0x27]
                @ toStr (orElse (propOf actualSchema ''format'') (JStr ''none'')) @ [CHR 0x27]\<rparr>]
      else Inr [])"

definition patternCheck :: "json \<Rightarrow> json \<Rightarrow> jserr + fieldIssue list" where
  "patternCheck expectedDef actualSchema =
     (if \<not> truthy (propOf expectedDef ''pattern'') then Inr []
      else if actualSchema = JNull then Inl TypeError
      else if \<not> strictEq (propOf actualSchema ''pattern'') (propOf expectedDef ''pattern'') then
        Inr [\<lparr>field = ''pattern'',
              fieldMessage = ''Pattern mismatch: expected '' @ [CHR 0x27]
                @ toStrU (propOf expectedDef ''pattern'') @ [CHR 0x27] @ '', got '' @ [CHR 0x27]
                @ toStr (orElse (propOf actualSchema ''pattern'') (JStr ''none'')) @ [CHR 0x27]\<rparr>]
      else Inr [])"

definition minLengthCheck :: "json \<Rightarrow> json \<Rightarrow> jserr + fieldIssue list" where
  "minLengthCheck expectedDef actualSchema =
     (if \<not> truthy (propOf expectedDef ''minLength'') then Inr []
      else if actualSchema = JNull then Inl TypeError
      else if \<not> strictEq (propOf actualSchema ''minLength'') (propOf expectedDef ''minLength'') then
        Inr [\<lparr>field = ''minLength'',
              fieldMessage = ''MinLength mismatch: expected ''
                @ toStrU (propOf expectedDef ''minLength'') @ '', got ''
                @ toStr (orElse (propOf actualSchema ''minLength'') (JStr ''none''))\<rparr>]
      else Inr [])"

definition maxLengthCheck :: "json \<Rightarrow> json \<Rightarrow> jserr + fieldIssue list" where
  "maxLengthCheck expectedDef actualSchema =
     (if \<not> truthy (propOf expectedDef ''maxLength'') then Inr []
      else if actualSchema = JNull then Inl TypeError
      else if \<not> strictEq (propOf actualSchema ''maxLength'') (propOf expectedDef ''maxLength'') then
        Inr [\<lparr>field = ''maxLength'',
              fieldMessage = ''MaxLength mismatch: expected ''
                @ toStrU (propOf expectedDef ''maxLength'') @ '', got ''
                @ toStr (orElse (propOf actualSchema ''maxLength'') (JStr ''none''))\<rparr>]
      else Inr [])"

text \<open>The checks in sequence: the first that throws ends them.\<close>

fun checksInOrder :: "(jserr + fieldIssue list) list \<Rightarrow> jserr + fieldIssue list" where
  "checksInOrder [] = Inr []"
| "checksInOrder (Inl e # rest) = Inl e"
| "checksInOrder (Inr found # rest) =
     (case checksInOrder rest of Inl e \<Rightarrow> Inl e | Inr later \<Rightarrow> Inr (found @ later))"

text \<open>\<open>node.k = v\<close> for an entry that exists: its value is replaced in place.\<close>

fun replaceFirst :: "string \<Rightarrow> 'a \<Rightarrow> (string \<times> 'a) list \<Rightarrow> (string \<times> 'a) list" where
  "replaceFirst k v [] = []"
| "replaceFirst k v (p # ps) = (if fst p = k then (k, v) # ps else p # replaceFirst k v ps)"

fun setProp :: "json \<Rightarrow> string \<Rightarrow> json \<Rightarrow> json" where
  "setProp (JObj kvs) k v = JObj (replaceFirst k v kvs)"
| "setProp node k v = node"

text \<open>
  The comparison of the enumerations. \<open>Array.prototype.sort\<close> sorts in place: the
  \<open>enum\<close> sequence of the registry definition and the \<open>enum\<close> sequence of the schema in
  the document are both reordered, so the function returns the two nodes as it leaves them.
  A truthy \<open>enum\<close> that is no sequence has no \<open>sort\<close> method, and the call throws.
\<close>

definition enumCheck :: "json \<Rightarrow> json \<Rightarrow> json \<times> json \<times> (jserr + fieldIssue list)" where
  "enumCheck expectedDef actualSchema =
     (if \<not> truthy (propOf expectedDef ''enum'') then (expectedDef, actualSchema, Inr [])
      else
        case propOf expectedDef ''enum'' of
          Some (JArr expected) \<Rightarrow>
            (let expectedDef' = setProp expectedDef ''enum'' (JArr (jsSort expected));
                 expectedEnums = stringify (JArr (jsSort expected))
             in if actualSchema = JNull then (expectedDef', actualSchema, Inl TypeError)
                else if \<not> truthy (propOf actualSchema ''enum'') then
                  (expectedDef', actualSchema,
                   Inr (if expectedEnums \<noteq> stringify (JArr (jsSort []))
                        then [\<lparr>field = ''enum'', fieldMessage = ''Enum values mismatch''\<rparr>]
                        else []))
                else
                  case propOf actualSchema ''enum'' of
                    Some (JArr actual) \<Rightarrow>
                      (expectedDef', setProp actualSchema ''enum'' (JArr (jsSort actual)),
                       Inr (if expectedEnums \<noteq> stringify (JArr (jsSort actual))
                            then [\<lparr>field = ''enum'', fieldMessage = ''Enum values mismatch''\<rparr>]
                            else []))
                  | _ \<Rightarrow> (expectedDef', actualSchema, Inl TypeError))
        | _ \<Rightarrow> (expectedDef, actualSchema, Inl TypeError))"

text \<open>
  \<open>validateFieldMatch(actualSchema, expectedDef, fullPath)\<close>: the registry definition and
  the schema as the call leaves them, and the issues found or the error thrown. An
  \<open>undefined\<close> or \<open>null\<close> definition throws at the first read.
\<close>

definition validateFieldMatch ::
    "json \<Rightarrow> json option \<Rightarrow> json option \<times> json \<times> (jserr + fieldIssue list)" where
  "validateFieldMatch actualSchema expectedDef =
     (if expectedDef = None \<or> expectedDef = Some JNull then (expectedDef, actualSchema, Inl TypeError)
      else
        let e = the expectedDef in
        case checksInOrder [typeCheck e actualSchema, formatCheck e actualSchema,
               patternCheck e actualSchema, minLengthCheck e actualSchema,
               maxLengthCheck e actualSchema] of
          Inl err \<Rightarrow> (expectedDef, actualSchema, Inl err)
        | Inr found \<Rightarrow>
            (case enumCheck e actualSchema of
               (e', actualSchema', Inl err) \<Rightarrow> (Some e', actualSchema', Inl err)
             | (e', actualSchema', Inr later) \<Rightarrow> (Some e', actualSchema', Inr (found @ later))))"






text \<open>
  What a walk carries along: the calls of \<open>addResult\<close> so far, the definitions table of the
  registry (its entries are changed by the sort) and the error thrown, if any.
\<close>

record walkState =
  wsCalls :: "call list"
  wsDefinitions :: "(string \<times> json) list"
  wsThrown :: "jserr option"

text \<open>
  The callback the validator passes to the walk. The three call sites differ in the message
  and in the prefix of the location, which are parameters here. It returns the state and the
  property schema as it leaves it.
\<close>

definition fieldCallback ::
    "(string \<times> string) list \<Rightarrow> (string \<Rightarrow> string) \<Rightarrow> string \<Rightarrow>
     walkState \<Rightarrow> string \<Rightarrow> json \<Rightarrow> string \<Rightarrow> walkState \<times> json" where
  "fieldCallback commonFieldMap messageOf locationPrefix st propName propSchema propPath =
     (let normalizedName = toLowerCase propName;
          mapped = lookupIn commonFieldMap normalizedName;
          defKey = (case mapped of Own actualName \<Rightarrow> actualName | _ \<Rightarrow> builtinKey normalizedName)
      in
      if mapped = Missing \<or> mapped = Own [] then (st, propSchema)
      else
        case lookupIn (wsDefinitions st) defKey of
          Builtin \<Rightarrow> (st, propSchema)
        | Missing \<Rightarrow> (st\<lparr>wsThrown := Some TypeError\<rparr>, propSchema)
        | Own d \<Rightarrow>
            (case validateFieldMatch propSchema (Some d) of
               (expectedDef, propSchema', result) \<Rightarrow>
                 (let st1 = st\<lparr>wsDefinitions :=
                               replaceFirst defKey (the expectedDef) (wsDefinitions st)\<rparr>
                  in case result of
                       Inl err \<Rightarrow> (st1\<lparr>wsThrown := Some err\<rparr>, propSchema')
                     | Inr issues \<Rightarrow>
                         if length issues > 0 then
                           (st1\<lparr>wsCalls := wsCalls st1 @
                              [(''warning'',
                                messageOf propName,
                                locationPrefix @ propPath,
                                Some (''Consider using standard definition: ''
                                  @ joinWith ''; '' (map fieldMessage issues)
                                  @ ''. Example: ''
                                  @ stringify (orElse (propOf (the expectedDef) ''example'')
                                                 (the expectedDef))))]\<rparr>,
                            propSchema')
                         else (st1, propSchema'))))"

text \<open>The node with the same keys and the given values, after a loop over its entries.\<close>

fun rebuild :: "json \<Rightarrow> json list \<Rightarrow> json" where
  "rebuild (JObj kvs) vs = JObj (zip (map fst kvs) vs)"
| "rebuild (JArr xs) vs = JArr vs"
| "rebuild node vs = node"

text \<open>The number of mappings and sequences in a tree; the walk descends along it.\<close>

fun weight :: "json \<Rightarrow> nat" where
  "weight (JArr xs) = Suc (sum_list (map weight xs))"
| "weight (JObj kvs) = Suc (sum_list (map (\<lambda>p. weight (snd p)) kvs))"
| "weight node = 0"

lemma weight_insertSorted:
  "sum_list (map weight (insertSorted v ws)) = weight v + sum_list (map weight ws)"
  by (induction ws) auto

lemma weight_foldl_insertSorted:
  "sum_list (map weight (foldl (\<lambda>sorted v. insertSorted v sorted) acc xs))
     = sum_list (map weight acc) + sum_list (map weight xs)"
  by (induction xs arbitrary: acc) (auto simp: weight_insertSorted)

lemma weight_jsSort: "weight (JArr (jsSort xs)) = weight (JArr xs)"
  by (simp add: jsSort_def weight_foldl_insertSorted)

lemma weight_replaceFirst:
  "map_of kvs k = Some v \<Longrightarrow> weight v' = weight v \<Longrightarrow>
     sum_list (map (\<lambda>p. weight (snd p)) (replaceFirst k v' kvs))
       = sum_list (map (\<lambda>p. weight (snd p)) kvs)"
  by (induction kvs) (auto split: if_splits)

lemma weight_setProp:
  "propOf node k = Some v \<Longrightarrow> weight v' = weight v \<Longrightarrow> weight (setProp node k v') = weight node"
  by (cases node) (auto simp: weight_replaceFirst)

lemma weight_sorted_enum:
  "propOf node k = Some (JArr ys) \<Longrightarrow> weight (setProp node k (JArr (jsSort ys))) = weight node"
  by (rule weight_setProp) (simp_all only: weight_jsSort)

lemma weight_enumCheck: "weight (fst (snd (enumCheck e a))) = weight a"
  by (auto simp: enumCheck_def Let_def weight_sorted_enum split: option.splits json.splits)

lemma weight_validateFieldMatch:
  "validateFieldMatch a e = (e', a', r) \<Longrightarrow> weight a' = weight a"
  using weight_enumCheck[of "the e" a]
  by (auto simp: validateFieldMatch_def Let_def split: sum.splits prod.splits if_splits)

lemma weight_fieldCallback:
  "weight (snd (fieldCallback fm msg pre st propName propSchema propPath)) = weight propSchema"
  by (auto simp: fieldCallback_def Let_def split: lookup.splits prod.splits sum.splits
        dest: weight_validateFieldMatch)

lemma map_snd_zip_same:
  "length ks = length xs \<Longrightarrow> map (\<lambda>p. f (snd p)) (zip ks xs) = map f xs"
  by (induction ks xs rule: list_induct2) auto

lemma weight_entries: "sum_list (map (\<lambda>p. weight (snd p)) (entries node)) \<le> weight node"
proof (cases node)
  case (JArr xs)
  then show ?thesis by (simp add: map_snd_zip_same)
next
  case (JStr s)
  then show ?thesis by (simp add: map_snd_zip_same comp_def)
qed simp_all

lemma weight_map_of: "map_of kvs k = Some v \<Longrightarrow> weight v \<le> sum_list (map (\<lambda>p. weight (snd p)) kvs)"
  by (induction kvs) (auto split: if_splits)

text \<open>
  \<open>walkSchema(schema, callback, path)\<close> with the callback above. A sequence has none of the
  properties the walk reads, and a scalar is left at once. The walk returns the state and the
  node as it leaves it; after a throw nothing more is done.
\<close>

function walkSchema ::
    "(string \<times> string) list \<Rightarrow> (string \<Rightarrow> string) \<Rightarrow> string \<Rightarrow>
     walkState \<Rightarrow> json \<Rightarrow> string \<Rightarrow> walkState \<times> json"
  and walkSchemaProps ::
    "(string \<times> string) list \<Rightarrow> (string \<Rightarrow> string) \<Rightarrow> string \<Rightarrow>
     walkState \<Rightarrow> (string \<times> json) list \<Rightarrow> string \<Rightarrow> walkState \<times> json list"
  and walkSchemaMembers ::
    "(string \<times> string) list \<Rightarrow> (string \<Rightarrow> string) \<Rightarrow> string \<Rightarrow>
     walkState \<Rightarrow> json list \<Rightarrow> string \<Rightarrow> nat \<Rightarrow> walkState \<times> json list"
where
  "walkSchema fm msg pre st (JObj kvs) path =
     (if wsThrown st \<noteq> None then (st, JObj kvs)
      else
        let r1 = (if truthy (map_of kvs ''properties'') then
                    (let props = the (map_of kvs ''properties'');
                         w = walkSchemaProps fm msg pre st (entries props) path
                     in (fst w, replaceFirst ''properties'' (rebuild props (snd w)) kvs))
                  else (st, kvs));
            r2 = (if truthy (map_of kvs ''items'') then
                    (let w = walkSchema fm msg pre (fst r1) (the (map_of kvs ''items''))
                               (if path \<noteq> [] then path @ ''[]'' else ''[]'')
                     in (fst w, replaceFirst ''items'' (snd w) (snd r1)))
                  else r1);
            r3 = (if truthy (map_of kvs ''allOf'') then
                    (case map_of kvs ''allOf'' of
                       Some (JArr subs) \<Rightarrow>
                         (let w = walkSchemaMembers fm msg pre (fst r2) subs (path @ ''.allOf'') 0
                          in (fst w, replaceFirst ''allOf'' (JArr (snd w)) (snd r2)))
                     | _ \<Rightarrow> (if wsThrown (fst r2) = None
                             then (fst r2)\<lparr>wsThrown := Some TypeError\<rparr> else fst r2, snd r2))
                  else r2);
            r4 = (if truthy (map_of kvs ''anyOf'') then
                    (case map_of kvs ''anyOf'' of
                       Some (JArr subs) \<Rightarrow>
                         (let w = walkSchemaMembers fm msg pre (fst r3) subs (path @ ''.anyOf'') 0
                          in (fst w, replaceFirst ''anyOf'' (JArr (snd w)) (snd r3)))
                     | _ \<Rightarrow> (if wsThrown (fst r3) = None
                             then (fst r3)\<lparr>wsThrown := Some TypeError\<rparr> else fst r3, snd r3))
                  else r3);
            r5 = (if truthy (map_of kvs ''oneOf'') then
                    (case map_of kvs ''oneOf'' of
                       Some (JArr subs) \<Rightarrow>
                         (let w = walkSchemaMembers fm msg pre (fst r4) subs (path @ ''.oneOf'') 0
                          in (fst w, replaceFirst ''oneOf'' (JArr (snd w)) (snd r4)))
                     | _ \<Rightarrow> (if wsThrown (fst r4) = None
                             then (fst r4)\<lparr>wsThrown := Some TypeError\<rparr> else fst r4, snd r4))
                  else r4)
        in (fst r5, JObj (snd r5)))"
| "walkSchema fm msg pre st (JArr xs) path = (st, JArr xs)"
| "walkSchema fm msg pre st (JStr s) path = (st, JStr s)"
| "walkSchema fm msg pre st (JNum n) path = (st, JNum n)"
| "walkSchema fm msg pre st (JBool b) path = (st, JBool b)"
| "walkSchema fm msg pre st JNull path = (st, JNull)"
| "walkSchemaProps fm msg pre st [] path = (st, [])"
| "walkSchemaProps fm msg pre st (entry # rest) path =
     (if wsThrown st \<noteq> None then (st, map snd (entry # rest))
      else
        let propName = fst entry;
            propPath = (if path \<noteq> [] then path @ ''.'' @ propName else propName);
            c = fieldCallback fm msg pre st propName (snd entry) propPath;
            w = walkSchema fm msg pre (fst c) (snd c) propPath;
            ws = walkSchemaProps fm msg pre (fst w) rest path
        in (fst ws, snd w # snd ws))"
| "walkSchemaMembers fm msg pre st [] path idx = (st, [])"
| "walkSchemaMembers fm msg pre st (subSchema # rest) path idx =
     (let w = walkSchema fm msg pre st subSchema (path @ ''['' @ showNat idx @ '']'');
          ws = walkSchemaMembers fm msg pre (fst w) rest path (Suc idx)
      in (fst ws, snd w # snd ws))"
  by pat_completeness auto
termination
proof (relation "measures
    [\<lambda>x. case x of
            Inl (fm, msg, pre, st, node, path) \<Rightarrow> weight node
          | Inr (Inl (fm, msg, pre, st, es, path)) \<Rightarrow> sum_list (map (\<lambda>p. weight (snd p)) es)
          | Inr (Inr (fm, msg, pre, st, subs, path, idx)) \<Rightarrow> sum_list (map weight subs),
     \<lambda>x. case x of
            Inl (fm, msg, pre, st, node, path) \<Rightarrow> 0
          | Inr (Inl (fm, msg, pre, st, es, path)) \<Rightarrow> Suc (length es)
          | Inr (Inr (fm, msg, pre, st, subs, path, idx)) \<Rightarrow> Suc (length subs)]",
    goal_cases)
  case 1 show ?case by simp
next
  case (2 fm msg pre st kvs path)
  then show ?case
    using weight_entries[of "the (map_of kvs ''properties'')"]
          weight_map_of[of kvs "''properties''" "the (map_of kvs ''properties'')"]
    by (cases "map_of kvs ''properties''") auto
next
  case (3 fm msg pre st kvs path)
  then show ?case
    using weight_map_of[of kvs "''items''" "the (map_of kvs ''items'')"]
    by (cases "map_of kvs ''items''") auto
next
  case (4 fm msg pre st kvs path)
  then show ?case
    using weight_map_of[of kvs "''allOf''"] by auto
next
  case (5 fm msg pre st kvs path)
  then show ?case
    using weight_map_of[of kvs "''anyOf''"] by auto
next
  case (6 fm msg pre st kvs path)
  then show ?case
    using weight_map_of[of kvs "''oneOf''"] by auto
next
  case (7 fm msg pre st entry rest path)
  then show ?case
    using weight_fieldCallback[of fm msg pre st "fst entry" "snd entry"] by fastforce
next
  case (8 fm msg pre st entry rest path)
  then show ?case by auto
next
  case (9 fm msg pre st subSchema rest path idx)
  then show ?case by auto
next
  case (10 fm msg pre st subSchema rest path idx)
  then show ?case by auto
qed

text \<open>A loop that carries a state along and yields the elements as it leaves them.\<close>

fun mapAccum :: "('s \<Rightarrow> 'a \<Rightarrow> 's \<times> 'b) \<Rightarrow> 's \<Rightarrow> 'a list \<Rightarrow> 's \<times> 'b list" where
  "mapAccum step s [] = (s, [])"
| "mapAccum step s (x # xs) =
     (let r = step s x; rs = mapAccum step (fst r) xs in (fst rs, snd r # snd rs))"

text \<open>The tree with the node at a chain of keys replaced.\<close>

fun setIn :: "json \<Rightarrow> string list \<Rightarrow> json \<Rightarrow> json" where
  "setIn node [] v = v"
| "setIn node (k # ks) v =
     (case node of
        JObj kvs \<Rightarrow>
          (case map_of kvs k of
             Some child \<Rightarrow> JObj (replaceFirst k (setIn child ks v) kvs)
           | None \<Rightarrow> node)
      | _ \<Rightarrow> node)"

definition throwIn :: "walkState \<Rightarrow> walkState" where
  "throwIn st = st\<lparr>wsThrown := Some TypeError\<rparr>"

text \<open>The body of the loop over the responses of an operation.\<close>

definition commonFieldsResponse ::
    "(string \<times> string) list \<Rightarrow> string \<Rightarrow> walkState \<Rightarrow> string \<times> json \<Rightarrow> walkState \<times> json" where
  "commonFieldsResponse commonFieldMap baseLocation st entry =
     (let statusCode = fst entry; response = snd entry in
      if wsThrown st \<noteq> None then (st, response)
      else if response = JNull then (throwIn st, response)
      else
        let respSchema = jsonSchemaOf response in
        if truthy respSchema then
          (let w = walkSchema commonFieldMap
                     (\<lambda>propName. ''Common field '' @ [CHR 0x27] @ propName @ [CHR 0x27]
                        @ '' doesn'' @ [CHR 0x27] @ ''t match standard definition in response.'')
                     (baseLocation @ ''.responses.'' @ statusCode @ ''.'')
                     st (the respSchema) []
           in (fst w, setIn response [''content'', ''application/json'', ''schema''] (snd w)))
        else (st, response))"

text \<open>The body of the loop over the operations of a path.\<close>

definition commonFieldsOperation ::
    "(string \<times> string) list \<Rightarrow> string \<Rightarrow> walkState \<Rightarrow> string \<times> json \<Rightarrow> walkState \<times> json" where
  "commonFieldsOperation commonFieldMap pathName st entry =
     (let method = fst entry; methodDef = snd entry in
      if wsThrown st \<noteq> None then (st, methodDef)
      else if \<not> typeofObject (Some methodDef) then (st, methodDef)
      else if methodDef = JNull then (throwIn st, methodDef)
      else
        let baseLocation = pathName @ ''.'' @ method;
            requestBody = propOf methodDef ''requestBody'';
            r1 = (if truthy requestBody \<and> truthy (jsonSchemaOf (the requestBody)) then
                    (let w = walkSchema commonFieldMap
                               (\<lambda>propName. ''Common field '' @ [CHR 0x27] @ propName @ [CHR 0x27]
                                  @ '' doesn'' @ [CHR 0x27]
                                  @ ''t match standard definition in request body.'')
                               (baseLocation @ ''.requestBody.'')
                               st (the (jsonSchemaOf (the requestBody))) []
                     in (fst w,
                         setIn methodDef
                           [''requestBody'', ''content'', ''application/json'', ''schema''] (snd w)))
                  else (st, methodDef));
            responses = propOf methodDef ''responses''
        in if truthy responses then
             (let w = mapAccum (commonFieldsResponse commonFieldMap baseLocation) (fst r1)
                        (entries (the responses))
              in (fst w, setIn (snd r1) [''responses''] (rebuild (the responses) (snd w))))
           else r1)"

text \<open>The body of the loop over the paths.\<close>

definition commonFieldsPath ::
    "(string \<times> string) list \<Rightarrow> walkState \<Rightarrow> string \<times> json \<Rightarrow> walkState \<times> json" where
  "commonFieldsPath commonFieldMap st entry =
     (let pathName = fst entry; pathDef = snd entry in
      if wsThrown st \<noteq> None then (st, pathDef)
      else if pathDef = JNull then (throwIn st, pathDef)
      else
        let w = mapAccum (commonFieldsOperation commonFieldMap pathName) st (entries pathDef)
        in (fst w, rebuild pathDef (snd w)))"

text \<open>The body of the loop over \<open>components.schemas\<close>.\<close>

definition commonFieldsSchema ::
    "(string \<times> string) list \<Rightarrow> walkState \<Rightarrow> string \<times> json \<Rightarrow> walkState \<times> json" where
  "commonFieldsSchema commonFieldMap st entry =
     (let schemaName = fst entry; schema = snd entry in
      walkSchema commonFieldMap
        (\<lambda>propName. ''Common field '' @ [CHR 0x27] @ propName @ [CHR 0x27] @ '' in schema ''
           @ [CHR 0x27] @ schemaName @ [CHR 0x27] @ '' doesn'' @ [CHR 0x27]
           @ ''t match standard definition.'')
        (''components.schemas.'' @ schemaName @ ''.'')
        st schema [])"

text \<open>
  \<open>validateCommonFields(apiSpec, addResult)\<close> against a registry: the calls made and the
  error thrown, if any, together with the registry and the document as the validator leaves
  them.
\<close>

definition validateCommonFields :: "registry \<Rightarrow> json \<Rightarrow> outcome \<times> registry \<times> json" where
  "validateCommonFields reg apiSpec =
     (if apiSpec = JNull then (([], Some TypeError), reg, apiSpec)
      else
        let st0 = \<lparr>wsCalls = [], wsDefinitions = definitions reg, wsThrown = None\<rparr>;
            paths = orElse (propOf apiSpec ''paths'') (JObj []);
            w1 = mapAccum (commonFieldsPath (fieldMap reg)) st0 (entries paths);
            spec1 = (if truthy (propOf apiSpec ''paths'')
                     then setIn apiSpec [''paths''] (rebuild paths (snd w1)) else apiSpec);
            schemas = optProp (propOf apiSpec ''components'') ''schemas'';
            w2 = (if wsThrown (fst w1) = None \<and> truthy schemas then
                    (let w = mapAccum (commonFieldsSchema (fieldMap reg)) (fst w1)
                               (entries (the schemas))
                     in (fst w,
                         setIn spec1 [''components'', ''schemas''] (rebuild (the schemas) (snd w))))
                  else (fst w1, spec1))
        in ((wsCalls (fst w2), wsThrown (fst w2)),
            reg\<lparr>definitions := wsDefinitions (fst w2)\<rparr>,
            snd w2))"


subsection \<open>Description validator\<close>

definition emitWith :: "string \<Rightarrow> string \<Rightarrow> string \<Rightarrow> string option \<Rightarrow> outcome" where
  "emitWith lvl msg loc sug = ([(lvl, msg, loc, sug)], None)"

text \<open>\<open>/^[A-Z]/.test(s)\<close> and \<open>/[.!?:]$/.test(s)\<close>.\<close>

definition startsUpper :: "string \<Rightarrow> bool" where
  "startsUpper s = (s \<noteq> [] \<and> isUpper (hd s))"

definition endsPunctuated :: "string \<Rightarrow> bool" where
  "endsPunctuated s = (s \<noteq> [] \<and> last s \<in> set ''.!?:'')"

fun isValidDescription :: "json option \<Rightarrow> bool" where
  "isValidDescription (Some (JStr desc)) =
     (desc \<noteq> [] \<and> \<not> length desc < 10 \<and> startsUpper desc \<and> endsPunctuated desc)"
| "isValidDescription desc = False"

definition getSuggestion :: "json option \<Rightarrow> json option \<Rightarrow> string option" where
  "getSuggestion currentDesc fieldName =
     (if \<not> truthy currentDesc then
        Some (''Add a description for field '' @ [CHR 0x27] @ toStrU fieldName @ [CHR 0x27]
                @ '' explaining what it represents.'')
      else
        let issues =
              (if \<not> startsUpper (toStrU currentDesc) then [''start with uppercase letter''] else [])
              @ (if \<not> endsPunctuated (toStrU currentDesc)
                 then [''end with proper punctuation (. ! ? or :)''] else [])
              @ (if ltNum (propOf (the currentDesc) ''length'') 10
                 then [''be more descriptive (at least 10 characters)''] else [])
        in if length issues > 0 then
             Some (''Description should '' @ joinWith '', '' issues @ ''. Current: '' @ [CHR 0x22]
                     @ toStrU currentDesc @ [CHR 0x22])
           else None)"

lemma forEach_cong [fundef_cong]:
  "xs = ys \<Longrightarrow> (\<And>x. x \<in> set ys \<Longrightarrow> f x = g x) \<Longrightarrow> forEach f xs = forEach g ys"
  by (simp add: forEach_def cong: map_cong)

lemma weight_entry_less:
  assumes "map_of kvs k = Some node" and "entry \<in> set (entries node)"
  shows "weight (snd entry) < weight (JObj kvs)"
proof -
  have "weight (snd entry) \<le> sum_list (map (\<lambda>p. weight (snd p)) (entries node))"
    using assms(2) by (simp add: member_le_sum_list)
  also have "\<dots> \<le> weight node" by (rule weight_entries)
  also have "\<dots> \<le> sum_list (map (\<lambda>p. weight (snd p)) kvs)" using assms(1) by (rule weight_map_of)
  finally show ?thesis by simp
qed

lemma weight_child_less: "map_of kvs k = Some node \<Longrightarrow> weight node < weight (JObj kvs)"
  using weight_map_of[of kvs k node] by simp

text \<open>\<open>walkProperties(schema, callback, path)\<close> of the description validator; its callbacks
  only report.\<close>

function walkProperties :: "(string \<Rightarrow> json \<Rightarrow> string \<Rightarrow> outcome) \<Rightarrow> json \<Rightarrow> string \<Rightarrow> outcome" where
  "walkProperties callback (JObj kvs) path =
     seqs [
       if truthy (map_of kvs ''properties'') then
         forEach (\<lambda>entry.
             seqs [callback (fst entry) (snd entry)
                     (if path \<noteq> [] then path @ ''.properties.'' @ fst entry
                      else ''properties.'' @ fst entry),
                   walkProperties callback (snd entry)
                     (if path \<noteq> [] then path @ ''.properties.'' @ fst entry
                      else ''properties.'' @ fst entry)])
           (entries (the (map_of kvs ''properties'')))
       else skip,
       if truthy (map_of kvs ''items'') then
         walkProperties callback (the (map_of kvs ''items'')) (path @ ''.items'')
       else skip]"
| "walkProperties callback (JArr xs) path = skip"
| "walkProperties callback (JStr s) path = skip"
| "walkProperties callback (JNum n) path = skip"
| "walkProperties callback (JBool b) path = skip"
| "walkProperties callback JNull path = skip"
  by pat_completeness auto
termination
proof (relation "measure (\<lambda>(callback, node, path). weight node)", goal_cases)
  case 1 show ?case by simp
next
  case (2 callback kvs path entry)
  then show ?case
    using weight_entry_less[of kvs "''properties''" "the (map_of kvs ''properties'')" entry]
    by (cases "map_of kvs ''properties''") auto
next
  case (3 callback kvs path)
  then show ?case
    using weight_child_less[of kvs "''items''" "the (map_of kvs ''items'')"]
    by (cases "map_of kvs ''items''") auto
qed

text \<open>The callback bodies: the three messages differ from one call site to the next.\<close>

definition describeProperty ::
    "string \<Rightarrow> string \<Rightarrow> string \<Rightarrow> string \<Rightarrow> string \<Rightarrow> json \<Rightarrow> outcome" where
  "describeProperty missingMessage missingSuggestion invalidMessage loc propName propSchema =
     withVal (getProp (Some propSchema) ''description'') (\<lambda>description.
       if \<not> truthy description then emit ''error'' missingMessage loc missingSuggestion
       else if \<not> isValidDescription description then
         emitWith ''warning'' invalidMessage loc
           (getSuggestion description (Some (JStr propName)))
       else skip)"

text \<open>The number of rounds of \<open>for (let i = 0; i < v.length; i++)\<close>.\<close>

definition loopCount :: "json \<Rightarrow> nat" where
  "loopCount v = (case toNumber (propOf v ''length'') of None \<Rightarrow> 0 | Some n \<Rightarrow> nat n)"

definition describeParameter :: "string \<Rightarrow> json \<Rightarrow> nat \<Rightarrow> outcome" where
  "describeParameter baseLocation parameters i =
     (let param = elemAt parameters i;
          paramLocation = baseLocation @ ''.parameters['' @ showNat i @ '']''
      in withVal (getProp param ''description'') (\<lambda>description.
           if \<not> truthy description then
             emit ''error''
               (''Parameter '' @ [CHR 0x27] @ toStrU (optProp param ''name'') @ [CHR 0x27]
                  @ '' is missing description.'')
               paramLocation
               (''Add description for parameter '' @ [CHR 0x27] @ toStrU (optProp param ''name'')
                  @ [CHR 0x27] @ ''.'')
           else if \<not> isValidDescription description then
             emitWith ''warning''
               (''Parameter '' @ [CHR 0x27] @ toStrU (optProp param ''name'') @ [CHR 0x27]
                  @ '' description needs improvement.'')
               paramLocation
               (getSuggestion description (optProp param ''name''))
           else skip))"

definition describeResponse :: "string \<Rightarrow> string \<times> json \<Rightarrow> outcome" where
  "describeResponse baseLocation entry =
     (let statusCode = fst entry; response = snd entry;
          respLocation = baseLocation @ ''.responses.'' @ statusCode
      in withVal (getProp (Some response) ''description'') (\<lambda>description.
           seqs [
             if \<not> truthy description then
               emit ''warning''
                 (''Response '' @ statusCode @ '' is missing description.'')
                 respLocation
                 ''Add a description explaining when this response occurs.''
             else skip,
             if truthy (jsonSchemaOf response) then
               walkProperties (\<lambda>propName propSchema propPath.
                   describeProperty
                     (''Response field '' @ [CHR 0x27] @ propName @ [CHR 0x27]
                        @ '' is missing description.'')
                     (''Add a description for field '' @ [CHR 0x27] @ propName @ [CHR 0x27]
                        @ '' explaining what it represents.'')
                     (''Field '' @ [CHR 0x27] @ propName @ [CHR 0x27]
                        @ '' description needs improvement.'')
                     (respLocation @ ''.'' @ propPath) propName propSchema)
                 (the (jsonSchemaOf response)) []
             else skip]))"

definition descriptionsOperation :: "string \<Rightarrow> string \<times> json \<Rightarrow> outcome" where
  "descriptionsOperation pathName entry =
     (let method = fst entry; methodDef = snd entry in
      if \<not> typeofObject (Some methodDef) then skip
      else
        withVal (getProp (Some methodDef) ''description'') (\<lambda>description.
        let baseLocation = pathName @ ''.'' @ method;
            parameters = propOf methodDef ''parameters'';
            requestBody = propOf methodDef ''requestBody'';
            responses = propOf methodDef ''responses''
        in seqs [
             if \<not> truthy description \<and> \<not> truthy (propOf methodDef ''summary'') then
               emit ''warning''
                 (''Endpoint '' @ toUpperCase method @ '' '' @ pathName
                    @ '' is missing description or summary.'')
                 baseLocation
                 ''Add a description or summary explaining what this endpoint does.''
             else skip,
             if truthy parameters then
               forEach (describeParameter baseLocation (the parameters))
                 [0..<loopCount (the parameters)]
             else skip,
             if truthy requestBody \<and> truthy (jsonSchemaOf (the requestBody)) then
               walkProperties (\<lambda>propName propSchema propPath.
                   describeProperty
                     (''Request body field '' @ [CHR 0x27] @ propName @ [CHR 0x27]
                        @ '' is missing description.'')
                     (''Add a description for field '' @ [CHR 0x27] @ propName @ [CHR 0x27]
                        @ '' explaining its purpose.'')
                     (''Field '' @ [CHR 0x27] @ propName @ [CHR 0x27]
                        @ '' description needs improvement.'')
                     (baseLocation @ ''.requestBody.'' @ propPath) propName propSchema)
                 (the (jsonSchemaOf (the requestBody))) []
             else skip,
             if truthy responses then
               forEach (describeResponse baseLocation) (entries (the responses))
             else skip]))"

definition descriptionsSchema :: "string \<times> json \<Rightarrow> outcome" where
  "descriptionsSchema entry =
     (let schemaName = fst entry; schema = snd entry in
      walkProperties (\<lambda>propName propSchema propPath.
          describeProperty
            (''Schema '' @ [CHR 0x27] @ schemaName @ [CHR 0x27] @ '' property '' @ [CHR 0x27]
               @ propName @ [CHR 0x27] @ '' is missing description.'')
            (''Add description for property '' @ [CHR 0x27] @ propName @ [CHR 0x27] @ ''.'')
            (''Property '' @ [CHR 0x27] @ schemaName @ ''.'' @ propName @ [CHR 0x27]
               @ '' description needs improvement.'')
            (''components.schemas.'' @ schemaName @ ''.'' @ propPath) propName propSchema)
        schema [])"

definition validateDescriptions :: "json \<Rightarrow> outcome" where
  "validateDescriptions apiSpec =
     withVal (getProp (Some apiSpec) ''paths'') (\<lambda>pathsV.
     let paths = orElse pathsV (JObj []);
         schemas = optProp (propOf apiSpec ''components'') ''schemas''
     in seqs [
          forEach (\<lambda>pathEntry.
              withVal (entriesOf (Some (snd pathEntry)))
                (forEach (descriptionsOperation (fst pathEntry))))
            (entries paths),
          if truthy schemas then forEach descriptionsSchema (entries (the schemas)) else skip])"

subsection \<open>Error responses validator\<close>

definition commonErrorCodes :: "(string \<times> string) list" where
  "commonErrorCodes =
     [(''400'', ''Bad Request - Invalid input''),
      (''401'', ''Unauthorized - Authentication required''),
      (''403'', ''Forbidden - Access denied''),
      (''404'', ''Not Found - Resource does not exist''),
      (''409'', ''Conflict - Resource conflict''),
      (''422'', ''Unprocessable Entity - Validation failed''),
      (''429'', ''Too Many Requests - Rate limit exceeded''),
      (''500'', ''Internal Server Error''),
      (''502'', ''Bad Gateway''),
      (''503'', ''Service Unavailable'')]"

text \<open>\<open>COMMON_ERROR_CODES[statusCode] || 'Error response'\<close>, as the template renders it.\<close>

definition errorCodeSuggestion :: "string \<Rightarrow> string" where
  "errorCodeSuggestion statusCode =
     (case lookupIn commonErrorCodes statusCode of
        Own phrase \<Rightarrow> phrase
      | Builtin \<Rightarrow> builtinKey statusCode
      | Missing \<Rightarrow> ''Error response'')"

text \<open>
  The body of the loop over the responses. The guard
  \<open>if (numCode < 400 || numCode >= 600) continue\<close> lets a status code through that does not
  parse as a number, since both comparisons with \<open>NaN\<close> are false.
\<close>

definition errorResponse :: "string \<Rightarrow> string \<times> json \<Rightarrow> outcome" where
  "errorResponse baseLocation entry =
     (let statusCode = fst entry; response = snd entry in
      if (case parseInt statusCode of None \<Rightarrow> False | Some numCode \<Rightarrow> numCode < 400 \<or> numCode \<ge> 600)
      then skip
      else
        let respLocation = baseLocation @ ''.responses.'' @ statusCode in
        withVal (getProp (Some response) ''description'') (\<lambda>description.
          seqs [
            if \<not> truthy description then
              emit ''warning''
                (''Error response '' @ statusCode @ '' is missing description.'')
                respLocation
                (''Add description, e.g., '' @ [CHR 0x22] @ errorCodeSuggestion statusCode
                   @ [CHR 0x22])
            else skip,
            (let respSchema = jsonSchemaOf response in
             if \<not> truthy respSchema then
               emit ''warning''
                 (''Error response '' @ statusCode @ '' has no schema defined.'')
                 respLocation
                 (''Add a schema for the error response body. Consider using ErrorResponse or ''
                    @ ''ValidationErrorResponse from common.yaml.'')
             else
               (let properties = propOf (the respSchema) ''properties'';
                    hasErrorField = (optProp properties ''error'' \<noteq> None);
                    hasMessageField = (optProp properties ''message'' \<noteq> None);
                    hasErrorsArray = (optProp properties ''errors'' \<noteq> None)
                in if \<not> hasErrorField \<and> \<not> hasMessageField \<and> \<not> hasErrorsArray then
                     emit ''warning''
                       (''Error response '' @ statusCode
                          @ '' schema should contain error information.'')
                       respLocation
                       (''Include fields like '' @ [CHR 0x22] @ ''error'' @ [CHR 0x22] @ '', ''
                          @ [CHR 0x22] @ ''message'' @ [CHR 0x22] @ '', or '' @ [CHR 0x22]
                          @ ''errors'' @ [CHR 0x22] @ '' to describe what went wrong.'')
                   else skip))]))"

definition errorResponsesOperation :: "string \<Rightarrow> string \<times> json \<Rightarrow> outcome" where
  "errorResponsesOperation pathName entry =
     (let method = fst entry; methodDef = snd entry in
      if \<not> typeofObject (Some methodDef) then skip
      else
        withVal (getProp (Some methodDef) ''responses'') (\<lambda>responsesV.
        let baseLocation = pathName @ ''.'' @ method;
            responses = orElse responsesV (JObj []);
            statusCodes = keys responses;
            errorCodes = filter (\<lambda>c. codeInRange c 400 600) statusCodes;
            has400 = (propOf responses ''400'' \<noteq> None);
            has404 = (propOf responses ''404'' \<noteq> None);
            has500 = (propOf responses ''500'' \<noteq> None)
        in seqs [
             if length errorCodes = 0 then
               emit ''error''
                 (''Endpoint '' @ toUpperCase method @ '' '' @ pathName
                    @ '' has no error responses defined.'')
                 baseLocation
                 (''Add at least one 4xx or 5xx error response. ''
                    @ ''Common codes: 400, 401, 403, 404, 500.'')
             else skip,
             forEach (errorResponse baseLocation) (entries responses),
             if method = ''get'' \<or> method = ''delete'' then
               (if \<not> has404 then
                  emit ''warning''
                    (toUpperCase method @ '' '' @ pathName @ '' should define 404 response.'')
                    baseLocation
                    ''Add 404 response for when the resource is not found.''
                else skip)
             else skip,
             if method = ''post'' \<or> method = ''put'' \<or> method = ''patch'' then
               (if \<not> has400 then
                  emit ''warning''
                    (toUpperCase method @ '' '' @ pathName @ '' should define 400 response.'')
                    baseLocation
                    ''Add 400 response for invalid request data.''
                else skip)
             else skip,
             if \<not> has500 then
               emit ''info''
                 (toUpperCase method @ '' '' @ pathName @ '' should define 500 response.'')
                 baseLocation
                 ''Consider adding 500 response for server errors.''
             else skip]))"

definition validateErrorResponses :: "json \<Rightarrow> outcome" where
  "validateErrorResponses apiSpec =
     withVal (getProp (Some apiSpec) ''paths'') (\<lambda>pathsV.
       forEach (\<lambda>pathEntry.
           withVal (entriesOf (Some (snd pathEntry)))
             (forEach (errorResponsesOperation (fst pathEntry))))
         (entries (orElse pathsV (JObj []))))"

subsection \<open>Components validator\<close>

text \<open>
  \<open>findAllRefs(obj, refs)\<close>: the references in the order the set receives them (the node's own
  \<open>$ref\<close>, then those of its values).
\<close>

fun findAllRefs :: "json \<Rightarrow> string list" where
  "findAllRefs (JObj kvs) =
     (case map_of kvs ''$ref'' of
        Some (JStr r) \<Rightarrow> (if r \<noteq> [] then [r] else [])
      | _ \<Rightarrow> [])
     @ concat (map (\<lambda>entry. findAllRefs (snd entry)) kvs)"
| "findAllRefs (JArr xs) = concat (map findAllRefs xs)"
| "findAllRefs node = []"

text \<open>The elements of a \<open>Set\<close> built from a list: each once, in the order of first
  insertion.\<close>

definition dedupe :: "string list \<Rightarrow> string list" where
  "dedupe xs = foldl (\<lambda>seen x. if x \<in> set seen then seen else seen @ [x]) [] xs"

definition componentsSchema :: "string \<times> json \<Rightarrow> outcome" where
  "componentsSchema entry =
     (let schemaName = fst entry; schema = snd entry in
      withVal (getProp (Some schema) ''type'') (\<lambda>ty.
        seqs [
          if \<not> truthy ty \<and> \<not> truthy (propOf schema ''allOf'') \<and> \<not> truthy (propOf schema ''anyOf'')
             \<and> \<not> truthy (propOf schema ''oneOf'') \<and> \<not> truthy (propOf schema ''$ref'') then
            emit ''warning''
              (''Schema '' @ [CHR 0x27] @ schemaName @ [CHR 0x27] @ '' has no type definition.'')
              (''components.schemas.'' @ schemaName)
              (''Add a '' @ [CHR 0x22] @ ''type'' @ [CHR 0x22] @ '' field (e.g., '' @ [CHR 0x22]
                 @ ''object'' @ [CHR 0x22] @ '', '' @ [CHR 0x22] @ ''array'' @ [CHR 0x22] @ '', ''
                 @ [CHR 0x22] @ ''string'' @ [CHR 0x22]
                 @ '') or use composition (allOf, anyOf, oneOf).'')
          else skip,
          if isStr ty ''object'' \<and> \<not> truthy (propOf schema ''properties'')
             \<and> \<not> truthy (propOf schema ''allOf'')
             \<and> \<not> truthy (propOf schema ''additionalProperties'') then
            emit ''warning''
              (''Object schema '' @ [CHR 0x27] @ schemaName @ [CHR 0x27]
                 @ '' has no properties defined.'')
              (''components.schemas.'' @ schemaName)
              (''Define properties for this object schema or use '' @ [CHR 0x22]
                 @ ''additionalProperties'' @ [CHR 0x22] @ ''.'')
          else skip,
          if isStr ty ''array'' \<and> \<not> truthy (propOf schema ''items'') then
            emit ''error''
              (''Array schema '' @ [CHR 0x27] @ schemaName @ [CHR 0x27]
                 @ '' has no items definition.'')
              (''components.schemas.'' @ schemaName)
              (''Add '' @ [CHR 0x22] @ ''items'' @ [CHR 0x22]
                 @ '' field to define the type of array elements.'')
          else skip]))"

definition validateComponents :: "json \<Rightarrow> outcome" where
  "validateComponents apiSpec =
     withVal (getProp (Some apiSpec) ''components'') (\<lambda>componentsV.
     let components = orElse componentsV (JObj []);
         schemas = orElse (propOf components ''schemas'') (JObj []);
         definedSchemas = dedupe (keys schemas);
         usedRefs = dedupe (findAllRefs apiSpec);
         schemaRefs = map (drop (length ''#/components/schemas/''))
                        (filter (\<lambda>r. startsWith r ''#/components/schemas/'') usedRefs);
         usedSchemas = dedupe schemaRefs;
         unusedSchemas = filter (\<lambda>name. name \<notin> set usedSchemas) definedSchemas
     in seqs [
          forEach (\<lambda>schemaName.
              if schemaName \<notin> set definedSchemas then
                emit ''error''
                  (''Referenced schema '' @ [CHR 0x27] @ schemaName @ [CHR 0x27]
                     @ '' is not defined in components.schemas.'')
                  ''components.schemas''
                  (''Add schema definition for '' @ [CHR 0x27] @ schemaName @ [CHR 0x27]
                     @ '' in components.schemas section.'')
              else skip) usedSchemas,
          if length unusedSchemas > 0 then
            forEach (\<lambda>schemaName.
                emit ''info''
                  (''Schema '' @ [CHR 0x27] @ schemaName @ [CHR 0x27]
                     @ '' is defined but never used.'')
                  (''components.schemas.'' @ schemaName)
                  (''Consider removing unused schema '' @ [CHR 0x27] @ schemaName @ [CHR 0x27]
                     @ '' or reference it in your API endpoints.'')) unusedSchemas
          else skip,
          forEach componentsSchema (entries schemas),
          if length (keys schemas) = 0
             \<and> length (keys (orElse (propOf apiSpec ''paths'') (JObj []))) > 0 then
            emit ''info''
              ''No schemas defined in components.schemas.''
              ''components.schemas''
              (''Consider defining reusable schemas in components.schemas ''
                 @ ''to avoid duplication.'')
          else skip])"

subsection \<open>Response schemas validator\<close>

definition isCode :: "string \<Rightarrow> int \<Rightarrow> bool" where
  "isCode c n = (parseInt c = Some n)"

definition responseSchemasResponse :: "string \<Rightarrow> string \<times> json \<Rightarrow> outcome" where
  "responseSchemasResponse baseLocation entry =
     (let statusCode = fst entry; response = snd entry;
          respLocation = baseLocation @ ''.responses.'' @ statusCode
      in
      if isCode statusCode 204 then skip
      else
        withVal (getProp (Some response) ''content'') (\<lambda>content.
        if \<not> truthy content then
          (if codeInRange statusCode 200 300 then
             emit ''warning''
               (''Response '' @ statusCode @ '' has no content defined.'')
               respLocation
               (''Add content with appropriate media type (e.g., application/json) ''
                  @ ''and schema.'')
           else skip)
        else
          (let jsonContent = propOf (the content) ''application/json'' in
           if \<not> truthy jsonContent then
             emit ''info''
               (''Response '' @ statusCode @ '' does not define application/json content type.'')
               respLocation
               ''Consider adding application/json content type for API responses.''
           else
             (let schema = propOf (the jsonContent) ''schema'' in
              seqs [
                if \<not> truthy schema then
                  emit ''error''
                    (''Response '' @ statusCode @ '' application/json has no schema defined.'')
                    (respLocation @ ''.content.application/json'')
                    ''Add schema to define the structure of the response body.''
                else if typeofObject schema \<and> \<not> truthy (propOf (the schema) ''$ref'')
                        \<and> \<not> truthy (propOf (the schema) ''type'')
                        \<and> \<not> truthy (propOf (the schema) ''allOf'')
                        \<and> \<not> truthy (propOf (the schema) ''anyOf'')
                        \<and> \<not> truthy (propOf (the schema) ''oneOf'')
                        \<and> length (keys (the schema)) = 0 then
                  emit ''warning''
                    (''Response '' @ statusCode @ '' has empty schema.'')
                    (respLocation @ ''.content.application/json.schema'')
                    (''Define schema properties or use $ref to reference a component ''
                       @ ''schema.'')
                else skip,
                if truthy schema \<and> \<not> truthy (propOf (the jsonContent) ''example'')
                   \<and> \<not> truthy (propOf (the jsonContent) ''examples'')
                   \<and> \<not> truthy (propOf (the schema) ''example'') then
                  (if codeInRange statusCode 200 300 then
                     emit ''info''
                       (''Response '' @ statusCode @ '' has no example defined.'')
                       (respLocation @ ''.content.application/json'')
                       ''Consider adding example response to improve API documentation.''
                   else skip)
                else skip]))))"

definition responseSchemasOperation :: "string \<Rightarrow> string \<times> json \<Rightarrow> outcome" where
  "responseSchemasOperation pathName entry =
     (let method = fst entry; methodDef = snd entry in
      if \<not> typeofObject (Some methodDef) then skip
      else
        withVal (getProp (Some methodDef) ''responses'') (\<lambda>responsesV.
        if \<not> truthy responsesV then skip
        else
          let baseLocation = pathName @ ''.'' @ method;
              responses = the responsesV;
              successResponses = filter (\<lambda>c. codeInRange c 200 300) (keys responses)
          in seqs [
               if length successResponses = 0 then
                 emit ''warning''
                   (''Endpoint '' @ toUpperCase method @ '' '' @ pathName
                      @ '' has no success responses (2xx).'')
                   baseLocation
                   ''Add at least one 2xx success response (e.g., 200, 201, 204).''
               else skip,
               forEach (responseSchemasResponse baseLocation) (entries responses)]))"

definition validateResponseSchemas :: "json \<Rightarrow> outcome" where
  "validateResponseSchemas apiSpec =
     withVal (getProp (Some apiSpec) ''paths'') (\<lambda>pathsV.
       forEach (\<lambda>pathEntry.
           withVal (entriesOf (Some (snd pathEntry)))
             (forEach (responseSchemasOperation (fst pathEntry))))
         (entries (orElse pathsV (JObj []))))"

subsection \<open>Path parameters validator\<close>

text \<open>
  The matches of \<open>/\{([^}]+)\}/g\<close>, braces removed, and \<open>/\{[^}]+\}/.test\<close>. Inside an
  opening brace the scan collects every character up to the next closing brace; an empty
  pair of braces is no match.
\<close>

fun scanBraces :: "string option \<Rightarrow> string \<Rightarrow> string list" where
  "scanBraces inside [] = []"
| "scanBraces None (c # cs) =
     (if c = CHR ''{'' then scanBraces (Some []) cs else scanBraces None cs)"
| "scanBraces (Some name) (c # cs) =
     (if c = CHR ''}'' then
        (if name \<noteq> [] then name # scanBraces None cs else scanBraces None cs)
      else scanBraces (Some (name @ [c])) cs)"

definition extractPathParams :: "string \<Rightarrow> string list" where
  "extractPathParams pathTemplate = scanBraces None pathTemplate"

text \<open>\<open>parameters.filter(p => p.in === 'path')\<close>: only a sequence has the method, and
  reading \<open>p.in\<close> of a \<open>null\<close> element throws.\<close>

definition pathParamsOf :: "json \<Rightarrow> jserr + json list" where
  "pathParamsOf parameters =
     (case parameters of
        JArr ps \<Rightarrow>
          if JNull \<in> set ps then Inl TypeError
          else Inr (filter (\<lambda>p. isStr (propOf p ''in'') ''path'') ps)
      | _ \<Rightarrow> Inl TypeError)"

definition pathParameterChecks :: "string list \<Rightarrow> string \<Rightarrow> json \<Rightarrow> outcome" where
  "pathParameterChecks expectedParams paramLocation param =
     seqs [
       if \<not> strictEq (propOf param ''required'') (Some (JBool True)) then
         emit ''error''
           (''Path parameter '' @ [CHR 0x27] @ toStrU (propOf param ''name'') @ [CHR 0x27]
              @ '' must be required.'')
           paramLocation
           (''Set '' @ [CHR 0x22] @ ''required'' @ [CHR 0x22] @ '': true for path parameter ''
              @ [CHR 0x27] @ toStrU (propOf param ''name'') @ [CHR 0x27] @ ''.'')
       else skip,
       if \<not> truthy (propOf param ''schema'') then
         emit ''error''
           (''Path parameter '' @ [CHR 0x27] @ toStrU (propOf param ''name'') @ [CHR 0x27]
              @ '' has no schema defined.'')
           paramLocation
           (''Add schema for '' @ [CHR 0x27] @ toStrU (propOf param ''name'') @ [CHR 0x27]
              @ '' (e.g., { '' @ [CHR 0x22] @ ''type'' @ [CHR 0x22] @ '': '' @ [CHR 0x22]
              @ ''string'' @ [CHR 0x22] @ '' }).'')
       else skip,
       if \<not> truthy (propOf param ''description'') then
         emit ''warning''
           (''Path parameter '' @ [CHR 0x27] @ toStrU (propOf param ''name'') @ [CHR 0x27]
              @ '' is missing description.'')
           paramLocation
           (''Add description for '' @ [CHR 0x27] @ toStrU (propOf param ''name'') @ [CHR 0x27]
              @ '' explaining what it represents.'')
       else skip,
       if \<not> includesStr expectedParams (propOf param ''name'') then
         emit ''warning''
           (''Path parameter '' @ [CHR 0x27] @ toStrU (propOf param ''name'') @ [CHR 0x27]
              @ '' is defined but not used in path template.'')
           paramLocation
           (''Remove unused parameter '' @ [CHR 0x27] @ toStrU (propOf param ''name'')
              @ [CHR 0x27] @ '' or add {'' @ toStrU (propOf param ''name'') @ ''} to the path.'')
       else skip]"

definition pathParametersOperation :: "string list \<Rightarrow> string \<Rightarrow> string \<times> json \<Rightarrow> outcome" where
  "pathParametersOperation expectedParams pathName entry =
     (let method = fst entry; methodDef = snd entry in
      if \<not> typeofObject (Some methodDef) then skip
      else
        withVal (getProp (Some methodDef) ''parameters'') (\<lambda>parametersV.
        let baseLocation = pathName @ ''.'' @ method;
            parameters = orElse parametersV (JArr [])
        in withVal (pathParamsOf parameters) (\<lambda>pathParams.
           let definedPathParams = map (\<lambda>p. propOf p ''name'') pathParams in
           seqs [
             forEach (\<lambda>expectedParam.
                 if \<not> list_ex (\<lambda>name. strictEq name (Some (JStr expectedParam))) definedPathParams
                 then
                   emit ''error''
                     (''Path parameter '' @ [CHR 0x27] @ expectedParam @ [CHR 0x27] @ '' in ''
                        @ toUpperCase method @ '' '' @ pathName @ '' is not defined.'')
                     (baseLocation @ ''.parameters'')
                     (''Add parameter definition: { '' @ [CHR 0x22] @ ''name'' @ [CHR 0x22]
                        @ '': '' @ [CHR 0x22] @ expectedParam @ [CHR 0x22] @ '', '' @ [CHR 0x22]
                        @ ''in'' @ [CHR 0x22] @ '': '' @ [CHR 0x22] @ ''path'' @ [CHR 0x22]
                        @ '', '' @ [CHR 0x22] @ ''required'' @ [CHR 0x22] @ '': true, ''
                        @ [CHR 0x22] @ ''schema'' @ [CHR 0x22] @ '': { '' @ [CHR 0x22] @ ''type''
                        @ [CHR 0x22] @ '': '' @ [CHR 0x22] @ ''string'' @ [CHR 0x22] @ '' } }'')
                 else skip) expectedParams,
             forEach (pathParameterChecks expectedParams (baseLocation @ ''.parameters''))
               pathParams])))"

definition validatePathParameters :: "json \<Rightarrow> outcome" where
  "validatePathParameters apiSpec =
     withVal (getProp (Some apiSpec) ''paths'') (\<lambda>pathsV.
       forEach (\<lambda>pathEntry.
           let expectedParams = extractPathParams (fst pathEntry) in
           if length expectedParams = 0 then skip
           else
             withVal (entriesOf (Some (snd pathEntry)))
               (forEach (pathParametersOperation expectedParams (fst pathEntry))))
         (entries (orElse pathsV (JObj []))))"

subsection \<open>HTTP methods validator\<close>

definition httpMethodNames :: "string list" where
  "httpMethodNames = [''get'', ''post'', ''put'', ''patch'', ''delete'', ''options'', ''head'']"

definition httpMethodsPathChecks :: "string \<Rightarrow> string list \<Rightarrow> outcome" where
  "httpMethodsPathChecks pathName methods =
     (let hasIdParam = (scanBraces None pathName \<noteq> []) in
      if hasIdParam then
        (let hasGet = (''get'' \<in> set methods);
             hasUpdate = (''put'' \<in> set methods \<or> ''patch'' \<in> set methods);
             hasDelete = (''delete'' \<in> set methods)
         in seqs [
              if hasGet \<and> \<not> hasUpdate \<and> \<not> hasDelete then
                emit ''info''
                  (''Resource '' @ pathName @ '' is read-only (no PUT/PATCH/DELETE).'')
                  pathName
                  (''Consider adding update (PUT/PATCH) or delete (DELETE) operations ''
                     @ ''if resource is mutable.'')
              else skip,
              if hasUpdate \<and> \<not> hasGet then
                emit ''warning''
                  (''Resource '' @ pathName @ '' can be updated but not retrieved.'')
                  pathName
                  ''Add GET operation to allow reading the resource.''
              else skip,
              if ''put'' \<in> set methods \<and> ''patch'' \<in> set methods then
                emit ''info''
                  (''Resource '' @ pathName @ '' has both PUT and PATCH.'')
                  pathName
                  ''Consider using only PUT (full replacement) or PATCH (partial update).''
              else skip])
      else
        (let hasGet = (''get'' \<in> set methods);
             hasPost = (''post'' \<in> set methods)
         in seqs [
              if hasPost \<and> \<not> hasGet then
                emit ''info''
                  (''Collection '' @ pathName @ '' allows creation but not listing.'')
                  pathName
                  ''Consider adding GET operation to list resources.''
              else skip,
              if ''put'' \<in> set methods \<or> ''patch'' \<in> set methods then
                emit ''warning''
                  (''Collection '' @ pathName @ '' has PUT or PATCH operation.'')
                  pathName
                  (''PUT/PATCH is typically for individual resources. ''
                     @ ''Consider moving to /{id} endpoint.'')
              else skip,
              if ''delete'' \<in> set methods then
                emit ''warning''
                  (''Collection '' @ pathName @ '' has DELETE operation.'')
                  pathName
                  (''DELETE on collections (bulk delete) should be carefully considered. ''
                     @ ''Usually DELETE is for individual resources.'')
              else skip]))"

definition httpMethodsOperation :: "string \<Rightarrow> string \<times> json \<Rightarrow> outcome" where
  "httpMethodsOperation pathName entry =
     (let method = fst entry; methodDef = snd entry in
      if \<not> typeofObject (Some methodDef) then skip
      else
        withVal (getProp (Some methodDef) ''requestBody'') (\<lambda>requestBody.
        let baseLocation = pathName @ ''.'' @ method;
            hasRequestBody = truthy requestBody;
            responses = orElse (propOf methodDef ''responses'') (JObj []);
            responseCodes = map parseInt (keys responses)
        in seqs [
             if method \<in> set [''get'', ''delete'', ''head''] \<and> hasRequestBody then
               emit ''warning''
                 (toUpperCase method @ '' '' @ pathName @ '' has a request body.'')
                 baseLocation
                 (toUpperCase method @ '' requests typically should not have request bodies. ''
                    @ ''Use query parameters instead.'')
             else skip,
             if method \<in> set [''post'', ''put'', ''patch''] \<and> \<not> hasRequestBody then
               emit ''warning''
                 (toUpperCase method @ '' '' @ pathName @ '' has no request body.'')
                 baseLocation
                 (toUpperCase method @ '' requests typically require a request body to send data.'')
             else skip,
             if method = ''post'' then
               (if Some 201 \<notin> set responseCodes \<and> Some 200 \<notin> set responseCodes then
                  emit ''info''
                    (''POST '' @ pathName @ '' doesn'' @ [CHR 0x27] @ ''t define 200 or 201 response.'')
                    (baseLocation @ ''.responses'')
                    ''POST requests typically return 201 (Created) or 200 (OK).''
                else skip)
             else skip,
             if method = ''delete'' then
               (if Some 204 \<notin> set responseCodes \<and> Some 200 \<notin> set responseCodes then
                  emit ''info''
                    (''DELETE '' @ pathName @ '' doesn'' @ [CHR 0x27]
                       @ ''t define 200 or 204 response.'')
                    (baseLocation @ ''.responses'')
                    ''DELETE requests typically return 204 (No Content) or 200 (OK).''
                else skip)
             else skip]))"

definition validateHttpMethods :: "json \<Rightarrow> outcome" where
  "validateHttpMethods apiSpec =
     withVal (getProp (Some apiSpec) ''paths'') (\<lambda>pathsV.
       forEach (\<lambda>pathEntry.
           withVal (entriesOf (Some (snd pathEntry))) (\<lambda>operations.
             seqs [
               httpMethodsPathChecks (fst pathEntry)
                 (filter (\<lambda>key. key \<in> set httpMethodNames) (map fst operations)),
               forEach (httpMethodsOperation (fst pathEntry)) operations]))
         (entries (orElse pathsV (JObj []))))"

subsection \<open>Examples validator\<close>

definition primitiveTypes :: "string list" where
  "primitiveTypes = [''string'', ''number'', ''integer'', ''boolean'']"

fun containsStr :: "string \<Rightarrow> string \<Rightarrow> bool" where
  "containsStr [] sub = (sub = [])"
| "containsStr (c # cs) sub = (startsWith (c # cs) sub \<or> containsStr cs sub)"

text \<open>
  \<open>required?.includes(propName)\<close>: \<open>undefined\<close> for \<open>null\<close> and \<open>undefined\<close>, the
  membership test of a sequence, the substring test of a string; any other value has no
  such method and the call throws.
\<close>

fun requiredIncludes :: "json option \<Rightarrow> string \<Rightarrow> jserr + bool" where
  "requiredIncludes None propName = Inr False"
| "requiredIncludes (Some JNull) propName = Inr False"
| "requiredIncludes (Some (JArr xs)) propName =
     Inr (list_ex (\<lambda>x. strictEq (Some x) (Some (JStr propName))) xs)"
| "requiredIncludes (Some (JStr s)) propName = Inr (containsStr s propName)"
| "requiredIncludes (Some v) propName = Inl TypeError"

definition examplesProperty :: "string \<Rightarrow> string \<Rightarrow> json \<Rightarrow> string \<times> json \<Rightarrow> outcome" where
  "examplesProperty schemaName loc schema entry =
     (let propName = fst entry; propSchema = snd entry in
      withVal (getProp (Some propSchema) ''$ref'') (\<lambda>ref.
        if truthy ref then skip
        else if \<not> truthy (propOf propSchema ''example'') \<and> \<not> truthy (propOf propSchema ''examples'')
                \<and> \<not> truthy (propOf propSchema ''default'')
                \<and> includesStr primitiveTypes (propOf propSchema ''type'') then
          withVal (requiredIncludes (propOf schema ''required'') propName) (\<lambda>isRequired.
            if isRequired then
              emit ''info''
                (''Required property '' @ [CHR 0x27] @ schemaName @ ''.'' @ propName @ [CHR 0x27]
                   @ '' has no example.'')
                (loc @ ''.properties.'' @ propName)
                ''Add example to show valid value.''
            else skip)
        else skip))"

definition examplesSchema :: "string \<times> json \<Rightarrow> outcome" where
  "examplesSchema entry =
     (let schemaName = fst entry; schema = snd entry;
          loc = ''components.schemas.'' @ schemaName
      in withVal (getProp (Some schema) ''$ref'') (\<lambda>ref.
         if truthy ref \<or> truthy (propOf schema ''allOf'') \<or> truthy (propOf schema ''anyOf'')
            \<or> truthy (propOf schema ''oneOf'') then skip
         else
           seqs [
             if \<not> truthy (propOf schema ''example'') \<and> \<not> truthy (propOf schema ''examples'') then
               (if isStr (propOf schema ''type'') ''object'' \<and> truthy (propOf schema ''properties'')
                then
                  (let propCount = length (keys (the (propOf schema ''properties''))) in
                   if propCount > 0 \<and> propCount \<le> 10 then
                     emit ''info''
                       (''Schema '' @ [CHR 0x27] @ schemaName @ [CHR 0x27]
                          @ '' has no example defined.'')
                       loc
                       ''Add example field to improve API documentation.''
                   else skip)
                else if includesStr primitiveTypes (propOf schema ''type'') then
                  emit ''info''
                    (''Schema '' @ [CHR 0x27] @ schemaName @ [CHR 0x27]
                       @ '' has no example value.'')
                    loc
                    ''Add example field to show valid values.''
                else skip)
             else skip,
             if isStr (propOf schema ''type'') ''object'' \<and> truthy (propOf schema ''properties'')
             then
               forEach (examplesProperty schemaName loc schema)
                 (entries (the (propOf schema ''properties'')))
             else skip]))"

definition examplesParameter :: "string \<Rightarrow> json \<Rightarrow> nat \<Rightarrow> outcome" where
  "examplesParameter baseLocation parameters i =
     (let param = elemAt parameters i;
          paramLocation = baseLocation @ ''.parameters['' @ showNat i @ '']''
      in withVal (getProp param ''example'') (\<lambda>example.
           if \<not> truthy example \<and> \<not> truthy (optProp param ''examples'')
              \<and> \<not> truthy (optProp (optProp param ''schema'') ''example'') then
             (if isStr (optProp param ''in'') ''query'' \<or> isStr (optProp param ''in'') ''path'' then
                emit ''info''
                  (''Parameter '' @ [CHR 0x27] @ toStrU (optProp param ''name'') @ [CHR 0x27]
                     @ '' has no example value.'')
                  paramLocation
                  ''Add example to show valid parameter value.''
              else skip)
           else skip))"

definition examplesOperation :: "string \<Rightarrow> string \<times> json \<Rightarrow> outcome" where
  "examplesOperation pathName entry =
     (let method = fst entry; methodDef = snd entry in
      if \<not> typeofObject (Some methodDef) then skip
      else
        withVal (getProp (Some methodDef) ''parameters'') (\<lambda>parameters.
          if \<not> truthy parameters then skip
          else
            forEach (examplesParameter (pathName @ ''.'' @ method) (the parameters))
              [0..<loopCount (the parameters)]))"

definition validateExamples :: "json \<Rightarrow> outcome" where
  "validateExamples apiSpec =
     withVal (getProp (Some apiSpec) ''components'') (\<lambda>components.
     let schemas = optProp components ''schemas'';
         paths = orElse (propOf apiSpec ''paths'') (JObj [])
     in seqs [
          if truthy schemas then forEach examplesSchema (entries (the schemas)) else skip,
          forEach (\<lambda>pathEntry.
              withVal (entriesOf (Some (snd pathEntry)))
                (forEach (examplesOperation (fst pathEntry))))
            (entries paths)])"

section \<open>Issues\<close>

text \<open>
  The orchestrator's \<open>addResult\<close> pushes
  \<open>{ level, message, location, suggestion, validator }\<close>. A suggestion may be
  \<open>null\<close>; the validator is \<open>undefined\<close> when the caller passes four
  arguments. The AI enhancement adds fields and keeps the others.
\<close>

datatype ai_fields = AiEnhanced string string | AiFailed string

record issue =
  level :: string
  message :: string
  location :: string
  suggestion :: "string option"
  validator :: "string option"
  ai :: "ai_fields option"

section \<open>The severity filter\<close>

definition severityOrder :: "(string \<times> nat) list" where
  "severityOrder = [(''error'', 0), (''warning'', 1), (''info'', 2)]"

text \<open>
  \<open>const minLevel = severityOrder[minSeverity] || 1\<close>: the operator \<open>||\<close>
  yields its right operand when the left one is falsy, which the rank \<open>0\<close> is. An
  inherited member is truthy and is kept as \<open>minLevel\<close>; comparing a number with it
  is false. A level with no rank compares as false too.
\<close>

definition filterBySeverity :: "issue list \<Rightarrow> json option \<Rightarrow> issue list" where
  "filterBySeverity results minSeverity =
     (let key = toStrU minSeverity in
      if map_of severityOrder key = None \<and> inherited key then []
      else
        let minLevel = (case map_of severityOrder key of
                          Some n \<Rightarrow> if n \<noteq> 0 then n else 1
                        | None \<Rightarrow> 1)
        in filter (\<lambda>result. case map_of severityOrder (level result) of
                                Some l \<Rightarrow> l \<le> minLevel
                              | None \<Rightarrow> False) results)"

section \<open>The orchestrator\<close>

text \<open>
  \<open>addResult\<close> of \<open>runValidation\<close> takes five parameters and stores them as one issue.
  Every validator calls it with four arguments, so the fifth, \<open>validator\<close>, is
  \<open>undefined\<close> in every issue stored.
\<close>

definition addResult ::
    "string \<Rightarrow> string \<Rightarrow> string \<Rightarrow> string option \<Rightarrow> string option \<Rightarrow> issue" where
  "addResult lvl msg loc sug val =
     \<lparr>level = lvl, message = msg, location = loc, suggestion = sug, validator = val, ai = None\<rparr>"

definition pushCall :: "call \<Rightarrow> issue" where
  "pushCall c = addResult (callLevel c) (callMessage c) (callLocation c) (callSuggestion c) None"

definition allValidators :: "string list" where
  "allValidators =
     [''descriptions'', ''commonFields'', ''errorResponses'', ''components'', ''security'',
      ''versioning'', ''responseSchemas'', ''pathParameters'', ''requiredFields'',
      ''httpMethods'', ''examples'']"

text \<open>The strings of a sequence that name a validator, as
  \<open>validators.filter(v => allValidators.includes(v))\<close> keeps them.\<close>

fun knownNames :: "json list \<Rightarrow> string list" where
  "knownNames [] = []"
| "knownNames (JStr s # rest) = (if s \<in> set allValidators then s # knownNames rest else knownNames rest)"
| "knownNames (v # rest) = knownNames rest"

definition getValidatorsToRun :: "json \<Rightarrow> string list" where
  "getValidatorsToRun validators =
     (if isStr (Some validators) ''all'' \<or> \<not> truthy (Some validators)
         \<or> strictEq (propOf validators ''length'') (Some (JNum 0)) then allValidators
      else case validators of
             JArr vs \<Rightarrow> knownNames vs
           | _ \<Rightarrow> allValidators)"

text \<open>
  The options of a run; an absent option is \<open>undefined\<close> and takes its default. What the
  run takes from outside the core is a parameter: whether the AI integration is enabled, what
  it answers for an issue, its general recommendations, and the clock.
\<close>

record options =
  optStrategy :: "json option"
  optMinSeverity :: "json option"
  optValidators :: "json option"
  optFileName :: "json option"
  optEnableAI :: "json option"
  optIndustry :: "json option"

record environment =
  geminiEnabled :: bool
  aiAnswer :: "issue \<Rightarrow> ai_fields"
  generalRecommendations :: "json option"
  clockTimestamp :: string
  clockDuration :: nat

definition withDefault :: "json option \<Rightarrow> json \<Rightarrow> json" where
  "withDefault v d = (case v of None \<Rightarrow> d | Some x \<Rightarrow> x)"

record summary =
  total :: nat
  errors :: nat
  warnings :: nat
  info :: nat

record metadata =
  duration :: nat
  validatorsRun :: nat
  commonFieldsLoaded :: nat
  aiEnhanced :: json

record validationResults =
  resultFile :: json
  strategy :: json
  timestamp :: string
  summary :: summary
  results :: "issue list"
  metadata :: metadata
  aiRecommendations :: "json option"

text \<open>
  The validators in their fixed order, each run when selected. The common fields validator
  may reorder sequences of the registry and of the document; the validators after it see
  the document as it left it. An error thrown by a validator ends the run.
\<close>

definition runValidators :: "string list \<Rightarrow> registry \<Rightarrow> json \<Rightarrow> outcome \<times> registry \<times> json" where
  "runValidators validatorsToRun reg apiSpec =
     (let d = (if ''descriptions'' \<in> set validatorsToRun then validateDescriptions apiSpec else skip)
      in
      if snd d \<noteq> None then (d, reg, apiSpec)
      else
        let c = (if ''commonFields'' \<in> set validatorsToRun then validateCommonFields reg apiSpec
                 else (skip, reg, apiSpec));
            reg' = fst (snd c);
            apiSpec' = snd (snd c)
        in (seqs [
              d,
              fst c,
              if ''errorResponses'' \<in> set validatorsToRun then validateErrorResponses apiSpec' else skip,
              if ''components'' \<in> set validatorsToRun then validateComponents apiSpec' else skip,
              if ''security'' \<in> set validatorsToRun then validateSecurity apiSpec' else skip,
              if ''versioning'' \<in> set validatorsToRun then validateVersioning apiSpec' else skip,
              if ''responseSchemas'' \<in> set validatorsToRun then validateResponseSchemas apiSpec'
              else skip,
              if ''pathParameters'' \<in> set validatorsToRun then validatePathParameters apiSpec'
              else skip,
              if ''requiredFields'' \<in> set validatorsToRun then validateRequiredFields apiSpec'
              else skip,
              if ''httpMethods'' \<in> set validatorsToRun then validateHttpMethods apiSpec' else skip,
              if ''examples'' \<in> set validatorsToRun then validateExamples apiSpec' else skip],
            reg', apiSpec'))"

text \<open>\<open>enhanceBatchWithAI\<close> on the first ten issues: each issue is copied with the AI fields
  added; the rest of the list follows unchanged.\<close>

definition enhanceTop :: "environment \<Rightarrow> issue list \<Rightarrow> issue list" where
  "enhanceTop env filteredResults =
     map (\<lambda>i. i\<lparr>ai := Some (aiAnswer env i)\<rparr>) (take 10 filteredResults)
     @ drop 10 filteredResults"

definition summarize :: "issue list \<Rightarrow> summary" where
  "summarize filteredResults =
     \<lparr>total = length filteredResults,
      errors = length (filter (\<lambda>r. level r = ''error'') filteredResults),
      warnings = length (filter (\<lambda>r. level r = ''warning'') filteredResults),
      info = length (filter (\<lambda>r. level r = ''info'') filteredResults)\<rparr>"

text \<open>
  \<open>runValidation(apiSpec, options)\<close>: the result returned or the error thrown, together with
  the registry and the document as the run leaves them.
\<close>

definition runValidation ::
    "environment \<Rightarrow> registry \<Rightarrow> json \<Rightarrow> options
     \<Rightarrow> (jserr + validationResults) \<times> registry \<times> json" where
  "runValidation env reg apiSpec opts =
     (let strategyV = withDefault (optStrategy opts) (JStr ''inline'');
          minSeverity = withDefault (optMinSeverity opts) (JStr ''warning'');
          validators = withDefault (optValidators opts) (JStr ''all'');
          fileName = withDefault (optFileName opts) (JStr ''api-spec.yaml'');
          enableAI = withDefault (optEnableAI opts) (JBool False);
          loadedFields = getFieldCount reg;
          validatorsToRun = getValidatorsToRun validators;
          ran = runValidators validatorsToRun reg apiSpec;
          reg' = fst (snd ran);
          apiSpec' = snd (snd ran)
      in case snd (fst ran) of
           Some err \<Rightarrow> (Inl err, reg', apiSpec')
         | None \<Rightarrow>
             (let allResults = map pushCall (fst (fst ran));
                  filteredResults = filterBySeverity allResults (Some minSeverity);
                  useAI = (truthy (Some enableAI) \<and> geminiEnabled env)
              in if useAI \<and> apiSpec' = JNull then (Inl TypeError, reg', apiSpec')
                 else
                   (let finalResults = (if useAI then enhanceTop env filteredResults
                                        else filteredResults)
                    in (Inr \<lparr>resultFile = fileName,
                             strategy = strategyV,
                             timestamp = clockTimestamp env,
                             summary = summarize finalResults,
                             results = finalResults,
                             metadata = \<lparr>duration = clockDuration env,
                                          validatorsRun = length validatorsToRun,
                                          commonFieldsLoaded = loadedFields,
                                          aiEnhanced = (if truthy (Some enableAI)
                                                        then JBool (geminiEnabled env)
                                                        else enableAI)\<rparr>,
                             aiRecommendations = (if useAI then generalRecommendations env
                                                  else Some JNull)\<rparr>,
                        reg', apiSpec'))))"

definition defaultOptions :: options where
  "defaultOptions = \<lparr>optStrategy = None, optMinSeverity = None, optValidators = None,
     optFileName = None, optEnableAI = None, optIndustry = None\<rparr>"

section \<open>Properties\<close>

subsection \<open>Sequencing\<close>

lemma seqs_Cons:
  "seqs (x # xs) = (case snd x of Some e \<Rightarrow> (fst x, Some e)
                    | None \<Rightarrow> (fst x @ fst (seqs xs), snd (seqs xs)))"
  by (cases x; cases "snd x") auto

lemma seqs_no_throw:
  "snd (seqs os) = None \<Longrightarrow>
     fst (seqs os) = concat (map fst os) \<and> (\<forall>out \<in> set os. snd out = None)"
  by (induction os) (auto simp: seqs_Cons split: option.splits)

lemma seqs_calls_subset: "set (fst (seqs os)) \<subseteq> (\<Union>out \<in> set os. set (fst out))"
  by (induction os) (auto simp: seqs_Cons split: option.splits)

lemma forEach_no_throw:
  "snd (forEach body xs) = None \<Longrightarrow>
     fst (forEach body xs) = concat (map (\<lambda>x. fst (body x)) xs)
     \<and> (\<forall>x \<in> set xs. snd (body x) = None)"
  using seqs_no_throw[of "map body xs"] by (simp add: forEach_def comp_def)

lemma forEach_calls_subset:
  "set (fst (forEach body xs)) \<subseteq> (\<Union>x \<in> set xs. set (fst (body x)))"
  using seqs_calls_subset[of "map body xs"] by (auto simp: forEach_def)

lemma seqs_throws_iff: "snd (seqs os) = None \<longleftrightarrow> (\<forall>out \<in> set os. snd out = None)"
  by (induction os) (auto simp: seqs_Cons split: option.splits)





lemma forEach_quiet: "(\<And>x. snd (body x) = None) \<Longrightarrow> snd (forEach body xs) = None"
  by (simp add: forEach_def seqs_throws_iff)

lemma filter_seqs_last:
  assumes "\<forall>out \<in> set outs. snd out = None \<and> filter P (fst out) = []"
  shows "filter P (fst (seqs (outs @ [final]))) = filter P (fst final)"
  using assms by (induction outs) (auto simp: seqs_Cons split: option.splits)

lemma filter_concat_unique:
  assumes "distinct (map fst xs)" and "(k, v) \<in> set xs"
      and "\<And>k' v'. (k', v') \<in> set xs \<Longrightarrow> k' \<noteq> k \<Longrightarrow> filter P (f (k', v')) = []"
  shows "filter P (concat (map f xs)) = filter P (f (k, v))"
  using assms
proof (induction xs)
  case Nil then show ?case by simp
next
  case (Cons a xs)
  show ?case
  proof (cases "a = (k, v)")
    case True
    have "\<And>k' v'. (k', v') \<in> set xs \<Longrightarrow> filter P (f (k', v')) = []"
    proof -
      fix k' v' assume m: "(k', v') \<in> set xs"
      with Cons.prems(1) True have "k' \<noteq> k" by (auto simp: rev_image_eqI)
      with m Cons.prems(3) show "filter P (f (k', v')) = []" by simp
    qed
    then have "filter P (concat (map f xs)) = []"
      by (induction xs) auto
    with True show ?thesis by simp
  next
    case False
    with Cons.prems have in_xs: "(k, v) \<in> set xs" by simp
    from Cons.prems(1) in_xs have "fst a \<noteq> k" by (auto simp: rev_image_eqI)
    then have "filter P (f a) = []" using Cons.prems(3)[of "fst a" "snd a"] by simp
    moreover have "filter P (concat (map f xs)) = filter P (f (k, v))"
      using Cons.IH Cons.prems in_xs by simp
    ultimately show ?thesis by simp
  qed
qed

subsection \<open>Severity filter\<close>

text \<open>
  C1 (the code departs from the claim at \<open>minSeverity = error\<close>): with the minimum
  severity \<open>error\<close> the filter computes the minimum rank 1, not 0, and keeps a
  warning. The claim says only error-level issues are kept.
\<close>

theorem filterBySeverity_error_keeps_warning:
  "filterBySeverity
     [\<lparr>level = ''warning'', message = ''m'', location = ''l'', suggestion = None,
       validator = None, ai = None\<rparr>] (Some (JStr ''error''))
   = [\<lparr>level = ''warning'', message = ''m'', location = ''l'', suggestion = None,
       validator = None, ai = None\<rparr>]"
  by (simp add: filterBySeverity_def severityOrder_def inherited_def objectPrototypeKeys_def)

subsection \<open>Common field registry\<close>

lemma map_of_assign_other: "k' \<noteq> k \<Longrightarrow> map_of (assign k v kvs) k' = map_of kvs k'"
  by (induction kvs) auto

lemma map_of_assign_same: "k \<noteq> ''__proto__'' \<Longrightarrow> map_of (assign k v kvs) k = Some v"
  by (induction kvs) auto

lemma translate_lower_not_upper: "\<not> isUpper (translate upperLetters lowerLetters c)"
proof (cases "c \<in> set upperLetters")
  case True
  then show ?thesis
    by (auto simp: translate_def upperLetters_def lowerLetters_def isUpper_def)
next
  case False
  then have "map_of (zip upperLetters lowerLetters) c = None"
    by (simp add: map_of_zip_is_None upperLetters_def lowerLetters_def)
  with False show ?thesis by (simp add: translate_def isUpper_def)
qed

lemma translate_lower_id: "\<not> isUpper c \<Longrightarrow> translate upperLetters lowerLetters c = c"
proof -
  assume "\<not> isUpper c"
  then have "map_of (zip upperLetters lowerLetters) c = None"
    by (simp add: map_of_zip_is_None upperLetters_def lowerLetters_def isUpper_def)
  then show ?thesis by (simp add: translate_def)
qed

lemma toLowerCase_no_upper: "c \<in> set (toLowerCase s) \<Longrightarrow> \<not> isUpper c"
  by (auto simp: toLowerCase_def translate_lower_not_upper)

lemma toLowerCase_fixed: "(\<forall>c \<in> set s. \<not> isUpper c) \<Longrightarrow> toLowerCase s = s"
  by (induction s) (auto simp: toLowerCase_def translate_lower_id)

lemma toLowerCase_idem: "toLowerCase (toLowerCase s) = toLowerCase s"
  by (rule toLowerCase_fixed) (auto dest: toLowerCase_no_upper)

lemma toLowerCase_append: "toLowerCase (a @ b) = toLowerCase a @ toLowerCase b"
  by (simp add: toLowerCase_def)

lemma snakeCase_no_upper: "c \<in> set (snakeCase n) \<Longrightarrow> \<not> isUpper c"
proof -
  assume c: "c \<in> set (snakeCase n)"
  let ?l = "toLowerCase (concat (map (\<lambda>c. if isUpper c then [CHR ''_'', c] else [c]) n))"
  have drop1: "\<And>l. set (case l of [] \<Rightarrow> [] | c # r \<Rightarrow> if c = CHR ''_'' then r else c # r) \<subseteq> set l"
  proof -
    fix l :: string
    show "set (case l of [] \<Rightarrow> [] | c # r \<Rightarrow> if c = CHR ''_'' then r else c # r) \<subseteq> set l"
      by (cases l) auto
  qed
  have "set (snakeCase n) \<subseteq> set ?l"
    unfolding snakeCase_def Let_def by (rule drop1)
  with c have "c \<in> set ?l" by blast
  then show ?thesis by (rule toLowerCase_no_upper)
qed

lemma toLowerCase_snakeCase: "toLowerCase (snakeCase n) = snakeCase n"
  by (rule toLowerCase_fixed) (auto dest: snakeCase_no_upper)

lemma toLowerCase_camelCase: "toLowerCase (camelCase n) = toLowerCase n"
proof -
  have "toLowerCase (camelCase n) = toLowerCase (take 1 n) @ toLowerCase (drop 1 n)"
    by (simp add: camelCase_def toLowerCase_append toLowerCase_idem)
  also have "\<dots> = toLowerCase (take 1 n @ drop 1 n)" by (simp only: toLowerCase_append)
  also have "\<dots> = toLowerCase n" by (simp only: append_take_drop_id)
  finally show ?thesis .
qed

text \<open>A camelCase key that is written differs from every all-lower-case key.\<close>

lemma camelCase_key_not_lower:
  assumes "camelCase m \<noteq> toLowerCase m" and "toLowerCase k = k"
  shows "camelCase m \<noteq> k"
proof
  assume "camelCase m = k"
  with assms(2) have "toLowerCase (camelCase m) = camelCase m" by simp
  with assms(1) show False by (simp add: toLowerCase_camelCase)
qed

lemma registerField_definitions_other:
  "fst entry \<noteq> n \<Longrightarrow> map_of (definitions (registerField reg entry)) n = map_of (definitions reg) n"
  by (simp add: registerField_def Let_def map_of_assign_other)

lemma registerField_definitions_same:
  "n \<noteq> ''__proto__'' \<Longrightarrow> map_of (definitions (registerField reg (n, d))) n = Some d"
  by (simp add: registerField_def Let_def map_of_assign_same)

lemma registerField_fieldMap_other:
  assumes "k \<notin> keysOf (fst entry)" and "toLowerCase k = k"
  shows "map_of (fieldMap (registerField reg entry)) k = map_of (fieldMap reg) k"
  using assms camelCase_key_not_lower[of "fst entry" k]
  by (auto simp: registerField_def Let_def map_of_assign_other keysOf_def)

lemma registerField_fieldMap_same:
  assumes "k \<in> keysOf n" and "k \<noteq> ''__proto__''"
  shows "map_of (fieldMap (registerField reg (n, d))) k = Some n"
proof -
  have low: "toLowerCase k = k"
    using assms(1) by (auto simp: keysOf_def toLowerCase_idem toLowerCase_snakeCase)
  have cam: "camelCase n \<noteq> toLowerCase n \<Longrightarrow> camelCase n \<noteq> k"
    using camelCase_key_not_lower[OF _ low] by simp
  show ?thesis
    using assms cam
    by (auto simp: registerField_def Let_def keysOf_def map_of_assign_same map_of_assign_other)
qed

lemma foldl_register_definitions_other:
  "n \<notin> fst ` set xs \<Longrightarrow>
     map_of (definitions (foldl registerField reg xs)) n = map_of (definitions reg) n"
  by (induction xs arbitrary: reg) (auto simp: registerField_definitions_other)

lemma foldl_register_definitions:
  assumes "distinct (map fst xs)" and "(n, d) \<in> set xs" and "n \<noteq> ''__proto__''"
  shows "map_of (definitions (foldl registerField reg xs)) n = Some d"
  using assms
proof (induction xs arbitrary: reg)
  case Nil then show ?case by simp
next
  case (Cons a xs)
  show ?case
  proof (cases "a = (n, d)")
    case True
    with Cons.prems(1) have "n \<notin> fst ` set xs" by auto
    then show ?thesis
      using True Cons.prems(3)
      by (simp add: foldl_register_definitions_other registerField_definitions_same)
  next
    case False
    with Cons.prems have "(n, d) \<in> set xs" "distinct (map fst xs)" by auto
    then show ?thesis using Cons.IH Cons.prems(3) by simp
  qed
qed

lemma foldl_register_fieldMap_other:
  assumes "\<forall>m \<in> fst ` set xs. k \<notin> keysOf m" and "toLowerCase k = k"
  shows "map_of (fieldMap (foldl registerField reg xs)) k = map_of (fieldMap reg) k"
  using assms
  by (induction xs arbitrary: reg) (auto simp: registerField_fieldMap_other)

lemma foldl_register_fieldMap:
  assumes "distinct (map fst xs)" and "(n, d) \<in> set xs"
      and "k \<in> keysOf n" and "k \<noteq> ''__proto__''"
      and "\<forall>m \<in> fst ` set xs. m \<noteq> n \<longrightarrow> k \<notin> keysOf m"
  shows "map_of (fieldMap (foldl registerField reg xs)) k = Some n"
  using assms
proof (induction xs arbitrary: reg)
  case Nil then show ?case by simp
next
  case (Cons a xs)
  have low: "toLowerCase k = k"
    using Cons.prems(3) by (auto simp: keysOf_def toLowerCase_idem toLowerCase_snakeCase)
  show ?case
  proof (cases "a = (n, d)")
    case True
    with Cons.prems(1) have "n \<notin> fst ` set xs" by auto
    with Cons.prems(5) have "\<forall>m \<in> fst ` set xs. k \<notin> keysOf m"
      by (metis image_eqI insert_iff list.set(2) image_insert)
    then show ?thesis
      using True low Cons.prems(3,4)
      by (simp add: foldl_register_fieldMap_other registerField_fieldMap_same)
  next
    case False
    with Cons.prems have "(n, d) \<in> set xs" "distinct (map fst xs)" by auto
    moreover from Cons.prems(5) have "\<forall>m \<in> fst ` set xs. m \<noteq> n \<longrightarrow> k \<notin> keysOf m" by auto
    ultimately show ?thesis using Cons.IH Cons.prems(3,4) by simp
  qed
qed

text \<open>
  C5 (the code departs from the claim): the loader spells the snake_case variant by putting
  an underscore before every capital letter, so the canonical name \<open>UserID\<close> is registered
  under the keys \<open>userid\<close>, \<open>user_i_d\<close> and \<open>userID\<close>, and looking up
  its snake_case variant \<open>user_id\<close> returns \<open>null\<close>. The comment above that
  computation gives the variants of \<open>UserID\<close> as \<open>user_id\<close>, \<open>userId\<close>
  and \<open>userid\<close>.
\<close>

theorem getField_UserID_user_id:
  "getField
     (loadRegistry (Some (JObj [(''components'', JObj [(''schemas'', JObj
        [(''UserID'', JObj [(''type'', JStr ''string'')])])])])))
     ''user_id''
   = Some JNull
   \<and> fieldMap
     (loadRegistry (Some (JObj [(''components'', JObj [(''schemas'', JObj
        [(''UserID'', JObj [(''type'', JStr ''string'')])])])])))
   = [(''userid'', ''UserID''), (''user_i_d'', ''UserID''), (''userID'', ''UserID'')]"
  by code_simp

text \<open>
  When two canonical names differ only in case, the entry loaded later takes over the shared
  lower-case key, and looking up the exact spelling of the first name returns the definition
  of the second.
\<close>

lemma getField_collision:
  "getField
     (loadRegistry (Some (JObj [(''components'', JObj [(''schemas'', JObj
        [(''UserId'', JObj [(''type'', JStr ''string'')]),
         (''userid'', JObj [(''type'', JStr ''integer'')])])])])))
     ''UserId''
   = Some (JObj [(''type'', JStr ''integer'')])"
  by (simp add: loadRegistry_def registerField_def emptyRegistry_def getField_def lookupIn_def
        orElse_def snakeCase_def camelCase_def toLowerCase_def translate_def isUpper_def
        upperLetters_def lowerLetters_def Let_def)

text \<open>
  The spellings the loader registers do resolve: for every canonical name loaded that is not
  empty, none of whose keys is \<open>__proto__\<close>, and whose lower-case and snake_case
  spellings (as the loader computes them) are not those of another loaded name, looking up
  its snake_case spelling, its camelCase spelling or its exact spelling, in any letter case,
  returns its definition.
\<close>

lemma getField_variants:
  assumes load: "getProp commonSpec ''components'' = Inr components"
              "optProp components ''schemas'' = Some (JObj schemas)"
      and dist: "distinct (map fst schemas)"
      and mem: "(n, d) \<in> set schemas"
      and nonempty: "n \<noteq> []"
      and noproto: "''__proto__'' \<notin> {n, toLowerCase n, snakeCase n}"
      and nocoll: "\<forall>m \<in> fst ` set schemas. m \<noteq> n \<longrightarrow>
                     {toLowerCase m, snakeCase m} \<inter> {toLowerCase n, snakeCase n} = {}"
      and variant: "v \<in> {snakeCase n, camelCase n, n}"
      and spelling: "toLowerCase s = toLowerCase v"
  shows "getField (loadRegistry commonSpec) s = Some d"
proof -
  let ?reg = "foldl registerField emptyRegistry schemas"
  have reg: "loadRegistry commonSpec = ?reg"
    using load by (simp add: loadRegistry_def orElse_def)
  let ?k = "toLowerCase s"
  have k: "?k \<in> keysOf n"
    using variant spelling
    by (auto simp: keysOf_def toLowerCase_snakeCase toLowerCase_camelCase)
  have kp: "?k \<noteq> ''__proto__''" using k noproto by (auto simp: keysOf_def)
  have others: "\<forall>m \<in> fst ` set schemas. m \<noteq> n \<longrightarrow> ?k \<notin> keysOf m"
    using nocoll k by (auto simp: keysOf_def)
  have "map_of (fieldMap ?reg) ?k = Some n"
    by (rule foldl_register_fieldMap[OF dist mem k kp others])
  moreover have "map_of (definitions ?reg) n = Some d"
  proof (rule foldl_register_definitions[OF dist mem])
    from noproto show "n \<noteq> ''__proto__''" by auto
  qed
  ultimately show ?thesis
    using nonempty by (simp add: reg getField_def lookupIn_def Let_def)
qed

lemma getField_variants_UserID:
  "getField
     (loadRegistry (Some (JObj [(''components'', JObj [(''schemas'', JObj
        [(''UserID'', JObj [(''type'', JStr ''string'')]),
         (''Currency'', JObj [(''type'', JStr ''string'')])])])])))
     ''USER_I_D''
   = Some (JObj [(''type'', JStr ''string'')])"
  by (rule getField_variants[where n = "''UserID''" and v = "snakeCase ''UserID''"
        and components = "Some (JObj [(''schemas'', JObj
        [(''UserID'', JObj [(''type'', JStr ''string'')]),
         (''Currency'', JObj [(''type'', JStr ''string'')])])])"
        and schemas = "[(''UserID'', JObj [(''type'', JStr ''string'')]),
         (''Currency'', JObj [(''type'', JStr ''string'')])]"])
     (simp_all add: snakeCase_def camelCase_def toLowerCase_def translate_def isUpper_def
        upperLetters_def lowerLetters_def Let_def)

subsection \<open>Security validator\<close>

text \<open>What the loop body reports for a data-modifying operation, and that it reports an error
  for no other.\<close>

lemma toUpperCase_methods:
  "toUpperCase ''post'' = ''POST''" "toUpperCase ''put'' = ''PUT''"
  "toUpperCase ''patch'' = ''PATCH''" "toUpperCase ''delete'' = ''DELETE''"
  by code_simp+

lemma securityOperation_calls:
  assumes m: "method = ''post'' \<or> method = ''put'' \<or> method = ''patch'' \<or> method = ''delete''"
      and sec: "map_of kvs ''security'' = None \<or> (\<exists>xs. map_of kvs ''security'' = Some (JArr xs))"
  shows "securityOperation g pathName (method, JObj kvs) =
     ((if \<not> g \<and> map_of kvs ''security'' = None then
         [(''warning'',
           ''Endpoint '' @ toUpperCase method @ '' '' @ pathName @ '' has no security defined.'',
           pathName @ ''.'' @ method,
           Some (''Add security requirement or explicitly mark as public with '' @ [CHR 0x22]
                    @ ''security: []'' @ [CHR 0x22] @ ''.''))]
       else if map_of kvs ''security'' = Some (JArr []) then
         [(''info'',
           ''Endpoint '' @ toUpperCase method @ '' '' @ pathName
              @ '' is publicly accessible (no authentication).'',
           pathName @ ''.'' @ method,
           Some (''Verify this endpoint should be public. If authentication is needed, ''
                    @ ''add security requirements.''))]
       else [])
      @ (if \<not> g \<and> (map_of kvs ''security'' = None \<or> map_of kvs ''security'' = Some (JArr [])) then
           [(''error'',
             toUpperCase method @ '' '' @ pathName @ '' modifies data but has no authentication.'',
             pathName @ ''.'' @ method,
             Some (''Add security requirements for data-modifying operations ''
                       @ ''(POST, PUT, PATCH, DELETE).''))]
         else []),
      None)"
  using m sec
  by (auto simp: securityOperation_def isPublicOf_def emit_def skip_def withVal_def Let_def
        seqs_Cons split: if_splits)

lemma withVal_calls:
  "c \<in> set (fst (withVal r body)) \<Longrightarrow> \<exists>v. r = Inr v \<and> c \<in> set (fst (body v))"
  by (cases r) (auto simp: withVal_def)

lemma seqs_two_calls:
  "c \<in> set (fst (seqs [a, b])) \<Longrightarrow> c \<in> set (fst a) \<or> c \<in> set (fst b)"
  using seqs_calls_subset[of "[a, b]"] by auto

lemma emit_not_error:
  "c \<in> set (fst (if C1 then emit ''warning'' m1 l1 s1 else if C2 then emit ''info'' m2 l2 s2 else skip))
     \<Longrightarrow> callLevel c = ''error'' \<Longrightarrow> False"
  by (auto simp: emit_def skip_def callLevel_def split: if_splits)

lemma emit_error_only:
  "c \<in> set (fst (if M then (if C then emit ''error'' m l s else skip) else skip))
     \<Longrightarrow> M \<and> c = (''error'', m, l, Some s)"
  by (auto simp: emit_def skip_def split: if_splits)

lemma securityOperation_error:
  assumes c: "c \<in> set (fst (securityOperation g p e))" and lvl: "callLevel c = ''error''"
  shows "(fst e = ''post'' \<or> fst e = ''put'' \<or> fst e = ''patch'' \<or> fst e = ''delete'')
       \<and> c = (''error'',
             toUpperCase (fst e) @ '' '' @ p @ '' modifies data but has no authentication.'',
             p @ ''.'' @ fst e,
             Some (''Add security requirements for data-modifying operations ''
                       @ ''(POST, PUT, PATCH, DELETE).''))"
  using c lvl
  apply (simp only: securityOperation_def Let_def split: if_splits)
   apply (simp add: skip_def)
  apply (drule withVal_calls, elim exE conjE)
  apply (drule withVal_calls, elim exE conjE)
  apply (drule seqs_two_calls)
  apply (blast dest: emit_not_error emit_error_only)
  done

lemma securityError_inj:
  assumes "m = ''post'' \<or> m = ''put'' \<or> m = ''patch'' \<or> m = ''delete''"
      and "m' = ''post'' \<or> m' = ''put'' \<or> m' = ''patch'' \<or> m' = ''delete''"
      and "toUpperCase m' @ '' '' @ p' @ s = toUpperCase m @ '' '' @ p @ s"
  shows "m' = m \<and> p' = p"
  using assms by (auto simp: toUpperCase_methods)

lemma forEach_call: "c \<in> set (fst (forEach body xs)) \<Longrightarrow> \<exists>x \<in> set xs. c \<in> set (fst (body x))"
  using forEach_calls_subset[of body xs] by auto

lemma operation_location_not_security:
  assumes "m = ''post'' \<or> m = ''put'' \<or> m = ''patch'' \<or> m = ''delete''"
  shows "p @ ''.'' @ m \<noteq> ''security''"
proof
  assume "p @ ''.'' @ m = ''security''"
  then have "last (p @ ''.'' @ m) = last ''security''" by (rule arg_cong)
  with assms show False by auto
qed

text \<open>
  C2, as stated, fails: a POST operation explicitly marked public with \<open>security: []\<close>,
  in a document without global security, receives the info issue and the error as well.
\<close>

theorem validateSecurity_public_post_counterexample:
  "map callLevel (fst (validateSecurity
      (JObj [(''paths'', JObj [(''/a'', JObj [(''post'', JObj [(''security'', JArr [])])])])])))
   = [''warning'', ''info'', ''error'']"
  by (simp add: validateSecurity_def hasGlobalSecurityOf_def securityOperation_def isPublicOf_def
        emit_def skip_def withVal_def forEach_def orElse_def keys_def gtNum_def callLevel_def
        Let_def)

text \<open>
  C2, amended: for an operation (a mapping) with method POST, PUT, PATCH or DELETE whose
  \<open>security\<close> is absent or a sequence, a run of the Security Validator that completes
  reports the error of unauthenticated data modification for it exactly when no global
  security is present and the operation either has no operation-level security or is
  explicitly marked public by an empty security sequence; an operation explicitly marked
  public is reported with an info issue (besides that error when no global security is
  present).
\<close>

theorem validateSecurity_modifying:
  assumes paths: "map_of kvs ''paths'' = Some (JObj paths)"
      and dpaths: "distinct (map fst paths)"
      and path: "(pathName, JObj ops) \<in> set paths"
      and dops: "distinct (map fst ops)"
      and op: "(method, JObj opkvs) \<in> set ops"
      and m: "method = ''post'' \<or> method = ''put'' \<or> method = ''patch'' \<or> method = ''delete''"
      and sec: "map_of opkvs ''security'' = None \<or> (\<exists>xs. map_of opkvs ''security'' = Some (JArr xs))"
      and completes: "snd (validateSecurity (JObj kvs)) = None"
  shows "((''error'',
           toUpperCase method @ '' '' @ pathName @ '' modifies data but has no authentication.'',
           pathName @ ''.'' @ method,
           Some (''Add security requirements for data-modifying operations ''
                   @ ''(POST, PUT, PATCH, DELETE).''))
            \<in> set (fst (validateSecurity (JObj kvs)))
          \<longleftrightarrow> \<not> hasGlobalSecurityOf (JObj kvs)
              \<and> (map_of opkvs ''security'' = None \<or> map_of opkvs ''security'' = Some (JArr [])))
       \<and> (map_of opkvs ''security'' = Some (JArr [])
            \<longrightarrow> (''info'',
                 ''Endpoint '' @ toUpperCase method @ '' '' @ pathName
                    @ '' is publicly accessible (no authentication).'',
                 pathName @ ''.'' @ method,
                 Some (''Verify this endpoint should be public. If authentication is needed, ''
                         @ ''add security requirements.''))
                  \<in> set (fst (validateSecurity (JObj kvs))))"
proof -
  define g where "g = hasGlobalSecurityOf (JObj kvs)"
  let ?E = "(''error'',
           toUpperCase method @ '' '' @ pathName @ '' modifies data but has no authentication.'',
           pathName @ ''.'' @ method,
           Some (''Add security requirements for data-modifying operations ''
                   @ ''(POST, PUT, PATCH, DELETE).''))"
  let ?I = "(''info'',
                 ''Endpoint '' @ toUpperCase method @ '' '' @ pathName
                    @ '' is publicly accessible (no authentication).'',
                 pathName @ ''.'' @ method,
                 Some (''Verify this endpoint should be public. If authentication is needed, ''
                         @ ''add security requirements.''))"
  let ?schemes = "orElse (optProp (map_of kvs ''components'') ''securitySchemes'') (JObj [])"
  let ?A = "if \<not> g \<and> length (keys ?schemes) = 0 then
            emit ''warning''
              ''No security schemes defined in the API specification.''
              ''components.securitySchemes''
              (''Add security schemes (e.g., bearerAuth, apiKey, oauth2) in ''
                 @ ''components.securitySchemes.'')
          else skip"
  let ?body = "\<lambda>pathEntry. withVal (entriesOf (Some (snd pathEntry)))
                (forEach (securityOperation g (fst pathEntry)))"
  let ?M = "forEach ?body paths"
  let ?C = "if g then
            withVal (iterate (orElse (map_of kvs ''security'') (JArr [])))
              (forEach (\<lambda>secReq.
                 withVal (entriesOf (Some secReq)) (\<lambda>es.
                   forEach (\<lambda>schemeName.
                     if \<not> truthyAt ?schemes schemeName then
                       emit ''error''
                         (''Security scheme '' @ [CHR 0x27] @ schemeName @ [CHR 0x27]
                            @ '' is referenced but not defined.'')
                         ''security''
                         (''Add '' @ [CHR 0x27] @ schemeName @ [CHR 0x27]
                            @ '' to components.securitySchemes.'')
                     else skip) (map fst es))))
          else skip"
  have shape: "validateSecurity (JObj kvs) = seqs [?A, ?M, ?C]"
    using paths by (simp add: validateSecurity_def withVal_def orElse_def Let_def g_def)
  with completes have nt: "snd (seqs [?A, ?M, ?C]) = None" by simp
  from seqs_no_throw[OF nt]
  have calls: "fst (validateSecurity (JObj kvs)) = fst ?A @ fst ?M @ fst ?C"
    and ntM: "snd ?M = None" using shape by simp_all
  from forEach_no_throw[OF ntM]
  have M: "fst ?M = concat (map (\<lambda>pe. fst (?body pe)) paths)"
    and ntP: "\<forall>pe \<in> set paths. snd (?body pe) = None" by simp_all
  from ntP path have "snd (forEach (securityOperation g pathName) ops) = None"
    by (auto simp: withVal_def)
  from forEach_no_throw[OF this]
  have P: "fst (?body (pathName, JObj ops))
             = concat (map (\<lambda>e. fst (securityOperation g pathName e)) ops)"
    by (simp add: withVal_def)
  have inM: "\<And>c. c \<in> set (fst (securityOperation g pathName (method, JObj opkvs)))
                \<Longrightarrow> c \<in> set (fst (validateSecurity (JObj kvs)))"
  proof -
    fix c assume "c \<in> set (fst (securityOperation g pathName (method, JObj opkvs)))"
    with op have "c \<in> set (fst (?body (pathName, JObj ops)))" unfolding P by auto
    with path have "c \<in> set (fst ?M)" unfolding M by force
    then show "c \<in> set (fst (validateSecurity (JObj kvs)))" unfolding calls by simp
  qed
  note opc = securityOperation_calls[OF m sec, of g pathName]
  have A: "\<And>c. c \<in> set (fst ?A) \<Longrightarrow> callLevel c = ''warning''"
    by (auto simp: emit_def skip_def callLevel_def split: if_splits)
  have C: "\<And>c. c \<in> set (fst ?C) \<Longrightarrow> callLocation c = ''security''"
    by (auto simp: emit_def skip_def callLocation_def split: if_splits
          dest!: withVal_calls forEach_call)
  have lvlE: "callLevel ?E = ''error''" by (simp add: callLevel_def)
  have locE: "callLocation ?E \<noteq> ''security''"
    using operation_location_not_security[OF m, of pathName] by (simp add: callLocation_def)
  have bwd: "?E \<in> set (fst (validateSecurity (JObj kvs))) \<Longrightarrow>
      \<not> g \<and> (map_of opkvs ''security'' = None \<or> map_of opkvs ''security'' = Some (JArr []))"
  proof -
    assume E: "?E \<in> set (fst (validateSecurity (JObj kvs)))"
    from E A C lvlE locE have "?E \<in> set (fst ?M)" unfolding calls by auto
    from forEach_call[OF this] obtain pe where pe: "pe \<in> set paths" "?E \<in> set (fst (?body pe))"
      by blast
    from withVal_calls[OF pe(2)] obtain es where
      es: "entriesOf (Some (snd pe)) = Inr es"
      and "?E \<in> set (fst (forEach (securityOperation g (fst pe)) es))" by blast
    from forEach_call[OF this(2)] obtain e where
      e: "e \<in> set es" "?E \<in> set (fst (securityOperation g (fst pe) e))" by blast
    from securityOperation_error[OF e(2) lvlE]
    have m': "fst e = ''post'' \<or> fst e = ''put'' \<or> fst e = ''patch'' \<or> fst e = ''delete''"
      and eq: "toUpperCase (fst e) @ '' '' @ fst pe @ '' modifies data but has no authentication.''
               = toUpperCase method @ '' '' @ pathName @ '' modifies data but has no authentication.''"
      by simp_all
    from securityError_inj[OF m m' eq] have same: "fst e = method" "fst pe = pathName" by simp_all
    from pe(1) same(2) path dpaths have "pe = (pathName, JObj ops)"
      by (metis eq_key_imp_eq_value prod.collapse)
    with es have "es = ops" by simp
    with e(1) same(1) op dops have "e = (method, JObj opkvs)"
      by (metis eq_key_imp_eq_value prod.collapse)
    with e(2) \<open>pe = (pathName, JObj ops)\<close>
    have "?E \<in> set (fst (securityOperation g pathName (method, JObj opkvs)))" by simp
    then show ?thesis unfolding opc by (auto split: if_splits)
  qed
  have forth: "\<not> g \<and> (map_of opkvs ''security'' = None \<or> map_of opkvs ''security'' = Some (JArr []))
      \<Longrightarrow> ?E \<in> set (fst (validateSecurity (JObj kvs)))"
    by (rule inM, unfold opc, auto)
  have pub: "map_of opkvs ''security'' = Some (JArr [])
      \<Longrightarrow> ?I \<in> set (fst (validateSecurity (JObj kvs)))"
    by (rule inM, unfold opc, auto)
  from bwd forth pub show ?thesis unfolding g_def by blast
qed

theorem validateSecurity_modifying_witness:
  "(''error'', ''POST /a modifies data but has no authentication.'', ''/a.post'',
    Some ''Add security requirements for data-modifying operations (POST, PUT, PATCH, DELETE).'')
     \<in> set (fst (validateSecurity
          (JObj [(''paths'', JObj [(''/a'', JObj [(''post'', JObj [(''security'', JArr [])])])])])))
   \<and> (''info'', ''Endpoint POST /a is publicly accessible (no authentication).'', ''/a.post'',
      Some ''Verify this endpoint should be public. If authentication is needed, add security requirements.'')
     \<in> set (fst (validateSecurity
          (JObj [(''paths'', JObj [(''/a'', JObj [(''post'', JObj [(''security'', JArr [])])])])])))"
proof -
  have completes: "snd (validateSecurity
          (JObj [(''paths'', JObj [(''/a'', JObj [(''post'', JObj [(''security'', JArr [])])])])]))
        = None"
    by code_simp
  have g: "\<not> hasGlobalSecurityOf
          (JObj [(''paths'', JObj [(''/a'', JObj [(''post'', JObj [(''security'', JArr [])])])])])"
    by code_simp
  have up: "toUpperCase ''post'' = ''POST''" by code_simp
  from validateSecurity_modifying[of
      "[(''paths'', JObj [(''/a'', JObj [(''post'', JObj [(''security'', JArr [])])])])]"
      "[(''/a'', JObj [(''post'', JObj [(''security'', JArr [])])])]"
      "''/a''" "[(''post'', JObj [(''security'', JArr [])])]" "''post''"
      "[(''security'', JArr [])]", OF _ _ _ _ _ _ _ completes] g up
  show ?thesis by simp
qed

subsection \<open>Versioning validator\<close>

text \<open>
  C6, as stated, fails: in a document with neither \<open>openapi\<close> nor \<open>info.version\<close>
  the validator reports the missing version and returns; nothing is reported at \<open>openapi\<close>.
\<close>

theorem validateVersioning_missing_version_counterexample:
  "map callLocation (fst (validateVersioning (JObj []))) = [''info.version'']"
  by (simp add: validateVersioning_def withVal_def orElse_def emit_def callLocation_def)

text \<open>
  C6, amended: for every document whose \<open>info.version\<close> is a non-empty string, a missing
  (falsy) \<open>openapi\<close> field is reported as one error at location \<open>openapi\<close>, and an
  \<open>openapi\<close> string that does not start with \<open>3.\<close> as one warning there.
\<close>

theorem validateVersioning_openapi:
  assumes "map_of kvs ''info'' = Some (JObj ikvs)"
      and "map_of ikvs ''version'' = Some (JStr v)" and "v \<noteq> []"
  shows "(\<not> truthy (map_of kvs ''openapi'') \<longrightarrow>
            filter (\<lambda>c. callLocation c = ''openapi'') (fst (validateVersioning (JObj kvs)))
            = [(''error'', ''Missing OpenAPI version.'', ''openapi'',
                Some (''Add openapi field (e.g., '' @ [CHR 0x22] @ ''3.0.3'' @ [CHR 0x22] @ '').''))])
       \<and> (\<forall>s. map_of kvs ''openapi'' = Some (JStr s) \<and> s \<noteq> [] \<and> \<not> startsWith s ''3.'' \<longrightarrow>
            filter (\<lambda>c. callLocation c = ''openapi'') (fst (validateVersioning (JObj kvs)))
            = [(''warning'', ''OpenAPI version '' @ [CHR 0x27] @ s @ [CHR 0x27] @ '' is outdated.'',
                ''openapi'', Some ''Consider upgrading to OpenAPI 3.0.3 or later.'')])"
proof -
  let ?P = "\<lambda>c. callLocation c = ''openapi''"
  let ?version = "Some (JStr v)"
  let ?outs = "[semverCheck ?version, prefixCheck ?version, titleCheck (JObj ikvs),
                pathVersionCheck (JObj kvs)]"
  have shape: "validateVersioning (JObj kvs) = seqs (?outs @ [openapiCheck (JObj kvs)])"
    using assms by (simp add: validateVersioning_def withVal_def orElse_def Let_def)
  have quiet: "\<forall>out \<in> set ?outs. snd out = None \<and> filter ?P (fst out) = []"
    by (simp add: semverCheck_def prefixCheck_def titleCheck_def pathVersionCheck_def
          withVal_def emit_def skip_def callLocation_def Let_def)
  have "filter ?P (fst (validateVersioning (JObj kvs))) = filter ?P (fst (openapiCheck (JObj kvs)))"
    unfolding shape using quiet by (rule filter_seqs_last)
  then show ?thesis
    by (auto simp: openapiCheck_def emit_def skip_def withVal_def callLocation_def)
qed

theorem validateVersioning_openapi_witness:
  "map callLevel (filter (\<lambda>c. callLocation c = ''openapi'')
      (fst (validateVersioning (JObj [(''info'', JObj [(''version'', JStr ''1.0.0'')])]))))
     = [''error'']
   \<and> map callLevel (filter (\<lambda>c. callLocation c = ''openapi'')
      (fst (validateVersioning
         (JObj [(''info'', JObj [(''version'', JStr ''1.0.0'')]), (''openapi'', JStr ''2.0'')]))))
     = [''warning'']"
  using validateVersioning_openapi[of "[(''info'', JObj [(''version'', JStr ''1.0.0'')])]"
          "[(''version'', JStr ''1.0.0'')]" "''1.0.0''"]
        validateVersioning_openapi[of
          "[(''info'', JObj [(''version'', JStr ''1.0.0'')]), (''openapi'', JStr ''2.0'')]"
          "[(''version'', JStr ''1.0.0'')]" "''1.0.0''"]
  by (simp add: startsWith_def callLevel_def)

subsection \<open>Required fields validator\<close>

text \<open>The loop over the paths reports no error.\<close>

lemma requiredFieldsOperation_no_error:
  "c \<in> set (fst (requiredFieldsOperation pathName entry)) \<Longrightarrow> callLevel c \<noteq> ''error''"
  by (auto simp: requiredFieldsOperation_def withVal_def emit_def skip_def Let_def seqs_Cons
        callLevel_def split: if_splits sum.splits)

lemma requiredFields_paths_no_error:
  assumes "c \<in> set (fst (forEach (\<lambda>pathEntry.
              withVal (entriesOf (Some (snd pathEntry)))
                (forEach (requiredFieldsOperation (fst pathEntry)))) ps))"
  shows "callLevel c \<noteq> ''error''"
proof -
  from assms forEach_calls_subset obtain pe where
    "c \<in> set (fst (withVal (entriesOf (Some (snd pe))) (forEach (requiredFieldsOperation (fst pe)))))"
    by fastforce
  then obtain es where "c \<in> set (fst (forEach (requiredFieldsOperation (fst pe)) es))"
    by (auto simp: withVal_def split: sum.splits)
  with forEach_calls_subset obtain e where "c \<in> set (fst (requiredFieldsOperation (fst pe) e))"
    by fastforce
  then show ?thesis by (rule requiredFieldsOperation_no_error)
qed

lemma requiredFieldsSchema_location:
  assumes c: "c \<in> set (fst (requiredFieldsSchema entry))"
  shows "callLocation c = ''components.schemas.'' @ fst entry"
proof -
  have fe: "\<And>body xs. c \<in> set (fst (forEach body xs)) \<Longrightarrow> \<exists>x. c \<in> set (fst (body x))"
    using forEach_calls_subset by fastforce
  from c show ?thesis
    by (auto simp: requiredFieldsSchema_def withVal_def emit_def skip_def Let_def seqs_Cons
          callLocation_def split: if_splits sum.splits option.splits dest!: fe)
qed

text \<open>
  C7, as stated, fails: a schema that declares \<open>required: ["x"]\<close> and has properties
  without \<open>x\<close>, but no \<open>type: object\<close>, is skipped and yields no error.
\<close>

theorem validateRequiredFields_untyped_schema_counterexample:
  "validateRequiredFields
     (JObj [(''components'', JObj [(''schemas'', JObj [(''Pet'',
        JObj [(''properties'', JObj [(''name'', JObj [(''type'', JStr ''string'')])]),
              (''required'', JArr [JStr ''x''])])])])])
   = ([], None)"
  by (simp add: validateRequiredFields_def requiredFieldsSchema_def withVal_def orElse_def
        forEach_def skip_def Let_def)

text \<open>
  C7, amended: for every schema in \<open>components.schemas\<close> that has \<open>type: object\<close> and a
  \<open>properties\<close> mapping and declares \<open>required: ["x"]\<close> while \<open>x\<close> is not among its
  properties, a run of the Required Fields Validator that completes yields exactly one error
  located at that schema, naming \<open>x\<close>, whatever other properties the schema has.
\<close>

theorem validateRequiredFields_undeclared_required:
  assumes schemas: "optProp (map_of kvs ''components'') ''schemas'' = Some (JObj schemas)"
      and dist: "distinct (map fst schemas)"
      and mem: "(name, JObj skvs) \<in> set schemas"
      and ty: "map_of skvs ''type'' = Some (JStr ''object'')"
      and props: "map_of skvs ''properties'' = Some (JObj props)"
      and req: "map_of skvs ''required'' = Some (JArr [JStr x])"
      and notin: "x \<notin> fst ` set props"
      and completes: "snd (validateRequiredFields (JObj kvs)) = None"
  shows "filter (\<lambda>c. callLevel c = ''error'' \<and> callLocation c = ''components.schemas.'' @ name)
           (fst (validateRequiredFields (JObj kvs)))
         = [(''error'',
             ''Schema '' @ [CHR 0x27] @ name @ [CHR 0x27] @ '' marks '' @ [CHR 0x27] @ x @ [CHR 0x27]
               @ '' as required but property doesn'' @ [CHR 0x27] @ ''t exist.'',
             ''components.schemas.'' @ name,
             Some (''Remove '' @ [CHR 0x27] @ x @ [CHR 0x27]
               @ '' from required array or add it to properties.''))]"
proof -
  let ?P = "\<lambda>c. callLevel c = ''error'' \<and> callLocation c = ''components.schemas.'' @ name"
  let ?pathsLoop = "forEach (\<lambda>pathEntry.
              withVal (entriesOf (Some (snd pathEntry)))
                (forEach (requiredFieldsOperation (fst pathEntry))))
            (entries (orElse (map_of kvs ''paths'') (JObj [])))"
  let ?schemaLoop = "forEach requiredFieldsSchema schemas"
  have unfold: "validateRequiredFields (JObj kvs) = seqs [?pathsLoop, ?schemaLoop]"
    using schemas by (simp add: validateRequiredFields_def withVal_def Let_def)
  with completes have nt: "snd (seqs [?pathsLoop, ?schemaLoop]) = None" by simp
  from seqs_no_throw[OF nt]
  have calls: "fst (validateRequiredFields (JObj kvs)) = fst ?pathsLoop @ fst ?schemaLoop"
    and nt2: "snd ?schemaLoop = None" using unfold by simp_all
  have p0: "filter ?P (fst ?pathsLoop) = []"
    using requiredFields_paths_no_error by (auto simp: filter_empty_conv)
  from forEach_no_throw[OF nt2]
  have sl: "fst ?schemaLoop = concat (map (\<lambda>e. fst (requiredFieldsSchema e)) schemas)" by simp
  have others: "\<And>k' v'. (k', v') \<in> set schemas \<Longrightarrow> k' \<noteq> name \<Longrightarrow>
        filter ?P (fst (requiredFieldsSchema (k', v'))) = []"
    using requiredFieldsSchema_location by (fastforce simp: filter_empty_conv)
  have one: "filter ?P (concat (map (\<lambda>e. fst (requiredFieldsSchema e)) schemas))
        = filter ?P (fst (requiredFieldsSchema (name, JObj skvs)))"
    using filter_concat_unique[of schemas name "JObj skvs" ?P "\<lambda>e. fst (requiredFieldsSchema e)",
            OF dist mem others] by simp
  have this_one: "fst (requiredFieldsSchema (name, JObj skvs))
        = [(''error'',
             ''Schema '' @ [CHR 0x27] @ name @ [CHR 0x27] @ '' marks '' @ [CHR 0x27] @ x @ [CHR 0x27]
               @ '' as required but property doesn'' @ [CHR 0x27] @ ''t exist.'',
             ''components.schemas.'' @ name,
             Some (''Remove '' @ [CHR 0x27] @ x @ [CHR 0x27]
               @ '' from required array or add it to properties.''))]"
    using ty props req notin
    by (auto simp: requiredFieldsSchema_def withVal_def Let_def emit_def skip_def forEach_def
          includesStr_def keys_def list_ex_iff image_iff)
  show ?thesis
    unfolding calls filter_append p0 sl one this_one
    by (simp add: callLevel_def callLocation_def)
qed

theorem validateRequiredFields_undeclared_required_witness:
  "map callLevel (filter (\<lambda>c. callLevel c = ''error'' \<and> callLocation c = ''components.schemas.Pet'')
     (fst (validateRequiredFields
        (JObj [(''components'', JObj [(''schemas'', JObj [(''Pet'',
           JObj [(''type'', JStr ''object''),
                 (''properties'', JObj [(''name'', JObj [(''type'', JStr ''string'')])]),
                 (''required'', JArr [JStr ''id''])])])])]))))
   = [''error'']"
proof -
  have "snd (validateRequiredFields
        (JObj [(''components'', JObj [(''schemas'', JObj [(''Pet'',
           JObj [(''type'', JStr ''object''),
                 (''properties'', JObj [(''name'', JObj [(''type'', JStr ''string'')])]),
                 (''required'', JArr [JStr ''id''])])])])])) = None"
    by (simp add: validateRequiredFields_def requiredFieldsSchema_def withVal_def orElse_def
          forEach_def skip_def emit_def Let_def keys_def includesStr_def)
  then show ?thesis
    using validateRequiredFields_undeclared_required[of
        "[(''components'', JObj [(''schemas'', JObj [(''Pet'',
           JObj [(''type'', JStr ''object''),
                 (''properties'', JObj [(''name'', JObj [(''type'', JStr ''string'')])]),
                 (''required'', JArr [JStr ''id''])])])])]"
        "[(''Pet'',
           JObj [(''type'', JStr ''object''),
                 (''properties'', JObj [(''name'', JObj [(''type'', JStr ''string'')])]),
                 (''required'', JArr [JStr ''id''])])]"
        "''Pet''"
        "[(''type'', JStr ''object''),
          (''properties'', JObj [(''name'', JObj [(''type'', JStr ''string'')])]),
          (''required'', JArr [JStr ''id''])]"
        "[(''name'', JObj [(''type'', JStr ''string'')])]"
        "''id''"]
    by (simp add: callLevel_def)
qed

subsection \<open>Common fields validator\<close>

text \<open>
  C3 (the code departs from the claim): when a property matches a registry definition that
  has an \<open>enum\<close>, \<open>validateFieldMatch\<close> sorts the \<open>enum\<close> sequence of the property's schema
  in place. Here the validator reports nothing, and leaves the document with the enumeration
  of \<open>Order.status\<close> reordered from \<open>[inactive, active]\<close> to \<open>[active, inactive]\<close>.
\<close>

theorem validateCommonFields_reorders_enum:
  "validateCommonFields
     (loadRegistry (Some (JObj [(''components'', JObj [(''schemas'', JObj
        [(''Status'', JObj [(''type'', JStr ''string''),
                           (''enum'', JArr [JStr ''active'', JStr ''inactive''])])])])])))
     (JObj [(''components'', JObj [(''schemas'', JObj
        [(''Order'', JObj [(''type'', JStr ''object''),
           (''properties'', JObj
              [(''status'', JObj [(''type'', JStr ''string''),
                                 (''enum'', JArr [JStr ''inactive'', JStr ''active''])])])])])])])
   = (([], None),
      \<lparr>definitions = [(''Status'', JObj [(''type'', JStr ''string''),
                           (''enum'', JArr [JStr ''active'', JStr ''inactive''])])],
       fieldMap = [(''status'', ''Status'')]\<rparr>,
      JObj [(''components'', JObj [(''schemas'', JObj
        [(''Order'', JObj [(''type'', JStr ''object''),
           (''properties'', JObj
              [(''status'', JObj [(''type'', JStr ''string''),
                                 (''enum'', JArr [JStr ''active'', JStr ''inactive''])])])])])])])"
  by code_simp


text \<open>\<open>validateFieldMatch\<close> reports the facets that differ, each once and in order; a walk
  reports within the occurrences it visits.\<close>

lemma checksInOrder_Inr:
  "checksInOrder [Inr a, Inr b, Inr c, Inr d, Inr e] = Inr (a @ b @ c @ d @ e)"
  by simp











lemma reports_none: "\<exists>ws. c = c @ ws \<and> subseq (map T ws) (map F (filter M occs))"
  by (rule exI[of _ "[]"]) simp





subsection \<open>Orchestrator\<close>

lemma summarize_counts:
  "total (summarize rs) = length rs
   \<and> errors (summarize rs) = length (filter (\<lambda>r. level r = ''error'') rs)
   \<and> warnings (summarize rs) = length (filter (\<lambda>r. level r = ''warning'') rs)
   \<and> info (summarize rs) = length (filter (\<lambda>r. level r = ''info'') rs)"
  by (simp add: summarize_def)

lemma enhanceTop_levels: "map (\<lambda>i. i\<lparr>ai := None\<rparr>) (enhanceTop env rs) = map (\<lambda>i. i\<lparr>ai := None\<rparr>) rs"
proof -
  have "map (\<lambda>i. i\<lparr>ai := None\<rparr>) (enhanceTop env rs)
        = map (\<lambda>i. i\<lparr>ai := None\<rparr>) (take 10 rs) @ map (\<lambda>i. i\<lparr>ai := None\<rparr>) (drop 10 rs)"
    by (simp add: enhanceTop_def comp_def)
  also have "\<dots> = map (\<lambda>i. i\<lparr>ai := None\<rparr>) (take 10 rs @ drop 10 rs)"
    by (simp only: map_append)
  also have "\<dots> = map (\<lambda>i. i\<lparr>ai := None\<rparr>) rs" by (simp only: append_take_drop_id)
  finally show ?thesis .
qed

text \<open>What the filter keeps, by level.\<close>

lemma filterBySeverity_warning:
  "m = None \<or> m = Some (JStr ''warning'') \<or> m = Some (JStr ''error'') \<Longrightarrow>
     filterBySeverity rs (Some (withDefault m (JStr ''warning'')))
       = filter (\<lambda>i. level i = ''error'' \<or> level i = ''warning'') rs"
  by (auto simp: filterBySeverity_def severityOrder_def inherited_def objectPrototypeKeys_def
        withDefault_def Let_def intro!: filter_cong)

lemma filterBySeverity_info:
  "filterBySeverity rs (Some (withDefault (Some (JStr ''info'')) (JStr ''warning'')))
     = filter (\<lambda>i. level i = ''error'' \<or> level i = ''warning'' \<or> level i = ''info'') rs"
  by (auto simp: filterBySeverity_def severityOrder_def inherited_def objectPrototypeKeys_def
        withDefault_def Let_def intro!: filter_cong)

lemma pushed_without_ai:
  "map (\<lambda>i. i\<lparr>ai := None\<rparr>) (filter P (map pushCall cs)) = filter P (map pushCall cs)"
  by (rule map_idI) (auto simp: pushCall_def addResult_def)

text \<open>
  C9: for every spec and options, the summary of the Result that \<open>runValidation\<close> returns
  counts the issue list it returns (total, errors, warnings, info), and that list is the
  severity-filtered list of the issues reported (with the AI fields added when enabled), not
  the unfiltered one: with the minimum severity \<open>warning\<close> (the default) or \<open>error\<close>
  it holds the reported issues of level \<open>error\<close> or \<open>warning\<close> and no other, with
  \<open>info\<close> those of the three levels, in the order reported.
\<close>

theorem runValidation_summary:
  assumes "fst (runValidation env reg apiSpec opts) = Inr res"
  shows "total (summary res) = length (results res)
       \<and> errors (summary res) = length (filter (\<lambda>r. level r = ''error'') (results res))
       \<and> warnings (summary res) = length (filter (\<lambda>r. level r = ''warning'') (results res))
       \<and> info (summary res) = length (filter (\<lambda>r. level r = ''info'') (results res))
       \<and> map (\<lambda>i. i\<lparr>ai := None\<rparr>) (results res)
           = map (\<lambda>i. i\<lparr>ai := None\<rparr>)
               (filterBySeverity
                  (map pushCall (fst (fst (runValidators
                     (getValidatorsToRun (withDefault (optValidators opts) (JStr ''all'')))
                     reg apiSpec))))
                  (Some (withDefault (optMinSeverity opts) (JStr ''warning''))))
       \<and> (optMinSeverity opts = None \<or> optMinSeverity opts = Some (JStr ''warning'')
            \<or> optMinSeverity opts = Some (JStr ''error'')
          \<longrightarrow> map (\<lambda>i. i\<lparr>ai := None\<rparr>) (results res)
                = filter (\<lambda>i. level i = ''error'' \<or> level i = ''warning'')
                    (map pushCall (fst (fst (runValidators
                       (getValidatorsToRun (withDefault (optValidators opts) (JStr ''all'')))
                       reg apiSpec)))))
       \<and> (optMinSeverity opts = Some (JStr ''info'')
          \<longrightarrow> map (\<lambda>i. i\<lparr>ai := None\<rparr>) (results res)
                = filter (\<lambda>i. level i = ''error'' \<or> level i = ''warning'' \<or> level i = ''info'')
                    (map pushCall (fst (fst (runValidators
                       (getValidatorsToRun (withDefault (optValidators opts) (JStr ''all'')))
                       reg apiSpec)))))"
proof -
  let ?reported = "map pushCall (fst (fst (runValidators
                     (getValidatorsToRun (withDefault (optValidators opts) (JStr ''all'')))
                     reg apiSpec)))"
  let ?filtered = "filterBySeverity ?reported
                     (Some (withDefault (optMinSeverity opts) (JStr ''warning'')))"
  from assms obtain final where
    res: "summary res = summarize final" "results res = final"
    and final: "final = ?filtered \<or> final = enhanceTop env ?filtered"
    by (auto simp: runValidation_def Let_def split: option.splits if_splits)
  from final have strip: "map (\<lambda>i. i\<lparr>ai := None\<rparr>) final = map (\<lambda>i. i\<lparr>ai := None\<rparr>) ?filtered"
    by (auto simp: enhanceTop_levels)
  have w: "optMinSeverity opts = None \<or> optMinSeverity opts = Some (JStr ''warning'')
            \<or> optMinSeverity opts = Some (JStr ''error'')
          \<Longrightarrow> map (\<lambda>i. i\<lparr>ai := None\<rparr>) final
                = filter (\<lambda>i. level i = ''error'' \<or> level i = ''warning'') ?reported"
    unfolding strip by (simp only: filterBySeverity_warning pushed_without_ai)
  have i: "optMinSeverity opts = Some (JStr ''info'')
          \<Longrightarrow> map (\<lambda>i. i\<lparr>ai := None\<rparr>) final
                = filter (\<lambda>i. level i = ''error'' \<or> level i = ''warning'' \<or> level i = ''info'')
                    ?reported"
    unfolding strip by (simp only: filterBySeverity_info pushed_without_ai)
  from strip w i show ?thesis using res summarize_counts[of final] by simp
qed

lemmas validator_defs =
  hasGlobalSecurityOf_def validateDescriptions_def validateErrorResponses_def validateComponents_def
  validateSecurity_def validateVersioning_def validateResponseSchemas_def
  validatePathParameters_def validateRequiredFields_def validateHttpMethods_def
  validateExamples_def validateCommonFields_def

lemmas js_defs =
  withVal_def forEach_def orElse_def keys_def emit_def skip_def gtNum_def Let_def

lemmas run_defs =
  runValidation_def runValidators_def defaultOptions_def withDefault_def getValidatorsToRun_def
  allValidators_def isStr_def filterBySeverity_def severityOrder_def inherited_def
  objectPrototypeKeys_def pushCall_def addResult_def callLevel_def callMessage_def
  callLocation_def callSuggestion_def summarize_def emptyRegistry_def dedupe_def

theorem runValidation_summary_witness:
  "\<exists>res. fst (runValidation
               \<lparr>geminiEnabled = False, aiAnswer = (\<lambda>i. AiFailed ''disabled''),
                generalRecommendations = None, clockTimestamp = ''2025-12-04T10:30:00Z'',
                clockDuration = 0\<rparr>
               emptyRegistry (JObj [(''paths'', JObj [(''/a'', JObj [(''get'', JObj [])])])])
               defaultOptions) = Inr res
         \<and> map level (results res)
             = [''warning'', ''error'', ''warning'', ''warning'', ''warning'', ''error'']
         \<and> total (summary res) = 6 \<and> errors (summary res) = 2 \<and> warnings (summary res) = 4
         \<and> info (summary res) = 0
         \<and> map callLevel (fst (fst (runValidators allValidators emptyRegistry
               (JObj [(''paths'', JObj [(''/a'', JObj [(''get'', JObj [])])])]))))
             = [''warning'', ''error'', ''warning'', ''info'', ''info'', ''warning'', ''warning'',
                ''error'']"
proof -
  let ?env = "\<lparr>geminiEnabled = False, aiAnswer = (\<lambda>i. AiFailed ''disabled''),
                generalRecommendations = None, clockTimestamp = ''2025-12-04T10:30:00Z'',
                clockDuration = 0\<rparr>"
  let ?spec = "JObj [(''paths'', JObj [(''/a'', JObj [(''get'', JObj [])])])]"
  have thrown: "snd (fst (runValidators allValidators emptyRegistry ?spec)) = None"
    by code_simp
  have levels: "map callLevel (fst (fst (runValidators allValidators emptyRegistry ?spec)))
       = [''warning'', ''error'', ''warning'', ''info'', ''info'', ''warning'', ''warning'',
          ''error'']"
    by code_simp
  have all: "getValidatorsToRun (withDefault (optValidators defaultOptions) (JStr ''all''))
       = allValidators"
    by code_simp
  from thrown obtain res where
    res: "fst (runValidation ?env emptyRegistry ?spec defaultOptions) = Inr res"
    by (simp add: runValidation_def defaultOptions_def withDefault_def getValidatorsToRun_def
          isStr_def Let_def)
  have none: "optMinSeverity defaultOptions = None" by (simp add: defaultOptions_def)
  note s = runValidation_summary[OF res, unfolded all]
  from s have counts: "total (summary res) = length (results res)"
      "errors (summary res) = length (filter (\<lambda>r. level r = ''error'') (results res))"
      "warnings (summary res) = length (filter (\<lambda>r. level r = ''warning'') (results res))"
      "info (summary res) = length (filter (\<lambda>r. level r = ''info'') (results res))"
    by blast+
  from s none have kept: "map (\<lambda>i. i\<lparr>ai := None\<rparr>) (results res)
       = filter (\<lambda>i. level i = ''error'' \<or> level i = ''warning'')
           (map pushCall (fst (fst (runValidators allValidators emptyRegistry ?spec))))"
    by blast
  have "map level (results res) = map level (map (\<lambda>i. i\<lparr>ai := None\<rparr>) (results res))"
    by (simp add: comp_def)
  also have "\<dots> = filter (\<lambda>l. l = ''error'' \<or> l = ''warning'')
                     (map callLevel (fst (fst (runValidators allValidators emptyRegistry ?spec))))"
    unfolding kept by (simp add: filter_map comp_def pushCall_def addResult_def)
  also have "\<dots> = [''warning'', ''error'', ''warning'', ''warning'', ''warning'', ''error'']"
    unfolding levels by simp
  finally have lv: "map level (results res)
       = [''warning'', ''error'', ''warning'', ''warning'', ''warning'', ''error'']" .
  have len: "\<And>P. length (filter (\<lambda>r. P (level r)) (results res))
                 = length (filter P (map level (results res)))"
    by (simp add: filter_map comp_def)
  have "length (results res) = 6" using arg_cong[OF lv, of length] by simp
  moreover have "length (filter (\<lambda>r. level r = ''error'') (results res)) = 2"
    using len[of "\<lambda>l. l = ''error''"] unfolding lv by simp
  moreover have "length (filter (\<lambda>r. level r = ''warning'') (results res)) = 4"
    using len[of "\<lambda>l. l = ''warning''"] unfolding lv by simp
  moreover have "length (filter (\<lambda>r. level r = ''info'') (results res)) = 0"
    using len[of "\<lambda>l. l = ''info''"] unfolding lv by simp
  ultimately show ?thesis using res lv levels counts by auto
qed

text \<open>
  C10 (the code departs from the claim): every validator calls \<open>addResult\<close> with four
  arguments, so the \<open>validator\<close> field of every issue is \<open>undefined\<close>. For the empty
  document the run returns two issues, neither of which names its validator.
\<close>

theorem runValidation_validator_undefined:
  "\<not> isl (fst (runValidation
       \<lparr>geminiEnabled = False, aiAnswer = (\<lambda>i. AiFailed ''disabled''),
        generalRecommendations = None, clockTimestamp = ''2025-12-04T10:30:00Z'',
        clockDuration = 0\<rparr>
       emptyRegistry (JObj []) defaultOptions))
   \<and> map (\<lambda>i. (location i, validator i)) (results (projr (fst (runValidation
       \<lparr>geminiEnabled = False, aiAnswer = (\<lambda>i. AiFailed ''disabled''),
        generalRecommendations = None, clockTimestamp = ''2025-12-04T10:30:00Z'',
        clockDuration = 0\<rparr>
       emptyRegistry (JObj []) defaultOptions))))
     = [(''components.securitySchemes'', None), (''info.version'', None)]"
  by (simp add: run_defs validator_defs js_defs)

text \<open>The same holds of every issue of every run.\<close>

lemma issues_without_validator:
  assumes "fst (runValidation env reg apiSpec opts) = Inr res" and "i \<in> set (results res)"
  shows "validator i = None"
proof -
  have pushed: "\<And>cs j. j \<in> set (map pushCall cs) \<Longrightarrow> validator j = None"
    by (auto simp: pushCall_def addResult_def)
  have filtered: "\<And>rs m j. j \<in> set (filterBySeverity rs m) \<Longrightarrow> j \<in> set rs"
    by (auto simp: filterBySeverity_def Let_def split: if_splits)
  have enhanced: "\<And>rs j. j \<in> set (enhanceTop env rs) \<Longrightarrow> \<exists>k \<in> set rs. validator j = validator k"
    by (auto simp: enhanceTop_def dest: in_set_takeD in_set_dropD)
  from assms show ?thesis
    by (auto simp: runValidation_def Let_def split: option.splits if_splits
          dest!: enhanced filtered pushed)
qed


lemma showNat_digits: "c \<in> set (showNat n) \<Longrightarrow> c \<in> set ''0123456789''"
proof (induction n rule: showNat.induct)
  case (1 n)
  show ?case
  proof (cases "n < 10")
    case True
    with 1(2) have "c = ''0123456789'' ! n" by (simp add: showNat.simps digitChar_def)
    moreover from True have "''0123456789'' ! n \<in> set ''0123456789''"
      by (intro nth_mem) simp
    ultimately show ?thesis by simp
  next
    case False
    have m: "n mod 10 < 10" by simp
    from False 1(2) have "c \<in> set (showNat (n div 10)) \<or> c = ''0123456789'' ! (n mod 10)"
      by (subst (asm) showNat.simps) (auto simp: digitChar_def)
    then show ?thesis
    proof
      assume "c \<in> set (showNat (n div 10))"
      with 1(1) False show ?thesis by simp
    next
      assume c: "c = ''0123456789'' ! (n mod 10)"
      from m have "''0123456789'' ! (n mod 10) \<in> set ''0123456789''"
        by (intro nth_mem) simp
      with c show ?thesis by simp
    qed
  qed
qed


lemma indexKey_named: "\<exists>c \<in> set k. c \<notin> set ''0123456789'' \<Longrightarrow> indexKey n k = None"
  unfolding indexKey_def find_None_iff using showNat_digits by blast


lemma indexKey_top_level:
  "indexKey n ''paths'' = None" "indexKey n ''info'' = None" "indexKey n ''components'' = None"
  "indexKey n ''security'' = None" "indexKey n ''openapi'' = None"
  by (rule indexKey_named, simp)+

lemma propOf_non_mapping:
  assumes "\<forall>kvs. apiSpec \<noteq> JObj kvs"
  shows "propOf apiSpec ''paths'' = None" "propOf apiSpec ''info'' = None"
        "propOf apiSpec ''components'' = None" "propOf apiSpec ''security'' = None"
        "propOf apiSpec ''openapi'' = None"
  using assms by (cases apiSpec; simp add: indexKey_top_level)+



lemma getProp_non_null: "v \<noteq> JNull \<Longrightarrow> getProp (Some v) k = Inr (propOf v k)"
  by (cases v) auto

text \<open>On a document that is no mapping (and not \<open>null\<close>) no validator throws.\<close>

lemma validators_non_mapping:
  assumes nm: "\<forall>kvs. apiSpec \<noteq> JObj kvs" and nn: "apiSpec \<noteq> JNull"
  shows "validateDescriptions apiSpec = ([], None)"
    and "validateCommonFields reg apiSpec = (([], None), reg, apiSpec)"
    and "validateErrorResponses apiSpec = ([], None)"
    and "snd (validateComponents apiSpec) = None"
    and "snd (validateSecurity apiSpec) = None"
    and "snd (validateVersioning apiSpec) = None"
    and "validateResponseSchemas apiSpec = ([], None)"
    and "validatePathParameters apiSpec = ([], None)"
    and "validateRequiredFields apiSpec = ([], None)"
    and "validateHttpMethods apiSpec = ([], None)"
    and "validateExamples apiSpec = ([], None)"
proof -
  note p = propOf_non_mapping[OF nm] getProp_non_null[OF nn]
  show "validateDescriptions apiSpec = ([], None)"
    by (simp add: validateDescriptions_def p js_defs)
  show "validateCommonFields reg apiSpec = (([], None), reg, apiSpec)"
    using nn by (simp add: validateCommonFields_def p js_defs)
  show "validateErrorResponses apiSpec = ([], None)"
    by (simp add: validateErrorResponses_def p js_defs)
  show "snd (validateComponents apiSpec) = None"
    by (simp add: validateComponents_def p withVal_def orElse_def keys_def Let_def dedupe_def
          seqs_throws_iff forEach_def emit_def skip_def)
  show "snd (validateSecurity apiSpec) = None"
    by (simp add: validateSecurity_def hasGlobalSecurityOf_def p js_defs)
  show "snd (validateVersioning apiSpec) = None"
    by (simp add: validateVersioning_def p js_defs)
  show "validateResponseSchemas apiSpec = ([], None)"
    by (simp add: validateResponseSchemas_def p js_defs)
  show "validatePathParameters apiSpec = ([], None)"
    by (simp add: validatePathParameters_def p js_defs)
  show "validateRequiredFields apiSpec = ([], None)"
    by (simp add: validateRequiredFields_def p js_defs)
  show "validateHttpMethods apiSpec = ([], None)"
    by (simp add: validateHttpMethods_def p js_defs)
  show "validateExamples apiSpec = ([], None)"
    by (simp add: validateExamples_def p js_defs)
qed

lemma runValidators_non_mapping:
  assumes nm: "\<forall>kvs. apiSpec \<noteq> JObj kvs" and nn: "apiSpec \<noteq> JNull"
  shows "snd (fst (runValidators vs reg apiSpec)) = None \<and> snd (snd (runValidators vs reg apiSpec)) = apiSpec"
  by (simp add: runValidators_def Let_def skip_def seqs_throws_iff validators_non_mapping[OF nm nn])










end
